theory Spec2Isabelle
  imports Main "HOL-Library.Multiset"
begin

section \<open>The blog's data\<close>

text \<open>
  The views of \<^verbatim>\<open>blog/views.py\<close> and \<^verbatim>\<open>blog/mixins.py\<close> work on four model classes
  (Post, Comment, Category, User) that are declared in \<^verbatim>\<open>blog/models.py\<close>. The records
  below carry the attributes the views read or assign: \<^verbatim>\<open>post.author\<close>,
  \<^verbatim>\<open>post.pub_date\<close>, \<^verbatim>\<open>post.is_published\<close>, \<^verbatim>\<open>post.category\<close>, \<^verbatim>\<open>comment.author\<close>,
  \<^verbatim>\<open>comment.post\<close>, \<^verbatim>\<open>category.slug\<close>, \<^verbatim>\<open>category.is_published\<close>,
  \<^verbatim>\<open>user.username\<close>, and one content field each for what a form edits. Foreign keys
  hold the primary key of the row they point to; times are integers (seconds).
\<close>

record User =
  username :: string

record Category =
  slug :: string
  category_is_published :: bool

record Post =
  author :: nat
  pub_date :: int
  is_published :: bool
  category :: "nat option"
  post_text :: string

record Comment =
  comment_author :: nat
  comment_post :: nat
  comment_text :: string

text \<open>
  A table maps primary keys to rows. Position \<open>pk\<close> of the list holds the row with that
  key, \<open>None\<close> once the row is deleted; a new row takes the next key, as an
  auto-incremented key does.
\<close>

type_synonym 'a table = "'a option list"

definition row_at :: "'a table \<Rightarrow> nat \<Rightarrow> 'a option" where
  "row_at t pk = (if pk < length t then t ! pk else None)"

fun rows_from :: "nat \<Rightarrow> 'a table \<Rightarrow> (nat \<times> 'a) list" where
  "rows_from k [] = []"
| "rows_from k (None # t) = rows_from (Suc k) t"
| "rows_from k (Some r # t) = (k, r) # rows_from (Suc k) t"

definition all_rows :: "'a table \<Rightarrow> (nat \<times> 'a) list" where
  "all_rows t = rows_from 0 t"

definition insert_row :: "'a table \<Rightarrow> 'a \<Rightarrow> 'a table" where
  "insert_row t r = t @ [Some r]"

definition save_row :: "'a table \<Rightarrow> nat \<Rightarrow> 'a \<Rightarrow> 'a table" where
  "save_row t pk r = t[pk := Some r]"

definition delete_row :: "'a table \<Rightarrow> nat \<Rightarrow> 'a table" where
  "delete_row t pk = t[pk := None]"

definition delete_where :: "('a \<Rightarrow> bool) \<Rightarrow> 'a table \<Rightarrow> 'a table" where
  "delete_where c t = map (\<lambda>r. case r of None \<Rightarrow> None | Some x \<Rightarrow> if c x then None else Some x) t"

text \<open>
  What a request can change: the four tables and the cache of \<^verbatim>\<open>django.core.cache\<close>.
\<close>

record world =
  Post_table :: "Post table"
  Comment_table :: "Comment table"
  Category_table :: "Category table"
  User_table :: "User table"
  cache :: "(string \<times> string) list"

section \<open>Querysets\<close>

text \<open>
  A queryset is lazy: it records the manager it was built from and the clauses added
  to it, and reads the database only when it is evaluated (\<open>fetch\<close>).
  \<open>Post_objects\<close> is \<^verbatim>\<open>Post.objects\<close>, \<open>category_posts c\<close> is \<^verbatim>\<open>category.posts\<close> and
  \<open>author_posts u\<close> is \<^verbatim>\<open>author.posts\<close>, the reverse managers of the two foreign keys.
\<close>

datatype manager = Post_objects | category_posts nat | author_posts nat

datatype lookup =
    pub_date__lt int
  | is_published_is bool
  | category__is_published_is bool

record queryset =
  qs_manager :: manager
  qs_select_related :: "string list"
  qs_filter :: "lookup list"
  qs_annotate :: "(string \<times> string) list"
  qs_order_by :: "string list"

definition select_related :: "manager \<Rightarrow> string list \<Rightarrow> queryset" where
  "select_related m names =
     \<lparr>qs_manager = m, qs_select_related = names, qs_filter = [], qs_annotate = [],
      qs_order_by = []\<rparr>"

definition filter_qs :: "queryset \<Rightarrow> lookup list \<Rightarrow> queryset" where
  "filter_qs q ls = q\<lparr>qs_filter := qs_filter q @ ls\<rparr>"

definition annotate :: "queryset \<Rightarrow> string \<Rightarrow> string \<Rightarrow> queryset" where
  "annotate q name counted = q\<lparr>qs_annotate := qs_annotate q @ [(name, counted)]\<rparr>"

definition order_by :: "queryset \<Rightarrow> string list \<Rightarrow> queryset" where
  "order_by q keys = q\<lparr>qs_order_by := keys\<rparr>"

text \<open>
  \<^verbatim>\<open>create_queryset(manager, filters, annotations)\<close> of views.py, lines 19 to 35. The
  value of \<^verbatim>\<open>timezone.now()\<close> at the call is the last argument.
\<close>

definition create_queryset :: "manager \<Rightarrow> bool \<Rightarrow> bool \<Rightarrow> int \<Rightarrow> queryset" where
  "create_queryset manager filters annotations now =
     (let queryset = select_related manager [''author'', ''location'', ''category''];
          queryset = (if filters
                      then filter_qs queryset
                             [pub_date__lt now, is_published_is True,
                              category__is_published_is True]
                      else queryset);
          queryset = (if annotations
                      then order_by (annotate queryset ''comment_count'' ''comments'')
                             [''-pub_date'']
                      else queryset)
      in queryset)"

subsection \<open>Evaluating a queryset\<close>

text \<open>
  A fetched row is the post with its key and the values of the annotations.
  \<open>category__is_published\<close> joins the category table, so a post without a category
  matches no value of it. \<open>Count('comments')\<close> counts the comments whose \<open>post\<close> is the
  row. \<open>order_by('-pub_date')\<close> sorts by descending \<open>pub_date\<close>; the database leaves the
  order of equal dates open, the model keeps them in the order they had.
\<close>

record row =
  pk :: nat
  obj :: Post
  annotation_values :: "(string \<times> nat) list"

definition manager_rows :: "world \<Rightarrow> manager \<Rightarrow> (nat \<times> Post) list" where
  "manager_rows w m =
     (case m of
        Post_objects \<Rightarrow> all_rows (Post_table w)
      | category_posts c \<Rightarrow> filter (\<lambda>(k, p). category p = Some c) (all_rows (Post_table w))
      | author_posts u \<Rightarrow> filter (\<lambda>(k, p). author p = u) (all_rows (Post_table w)))"

fun holds :: "world \<Rightarrow> Post \<Rightarrow> lookup \<Rightarrow> bool" where
  "holds w p (pub_date__lt t) = (pub_date p < t)"
| "holds w p (is_published_is b) = (is_published p = b)"
| "holds w p (category__is_published_is b) =
     (case category p of
        None \<Rightarrow> False
      | Some c \<Rightarrow> (case row_at (Category_table w) c of
                    None \<Rightarrow> False
                  | Some cat \<Rightarrow> category_is_published cat = b))"

definition count_related :: "world \<Rightarrow> string \<Rightarrow> nat \<Rightarrow> nat" where
  "count_related w counted k =
     (if counted = ''comments''
      then length (filter (\<lambda>(i, c). comment_post c = k) (all_rows (Comment_table w)))
      else 0)"

definition fetch_row :: "world \<Rightarrow> queryset \<Rightarrow> nat \<times> Post \<Rightarrow> row" where
  "fetch_row w q kp =
     \<lparr>pk = fst kp, obj = snd kp,
      annotation_values = map (\<lambda>(name, counted). (name, count_related w counted (fst kp)))
                      (qs_annotate q)\<rparr>"

definition ordered :: "string list \<Rightarrow> row list \<Rightarrow> row list" where
  "ordered keys rs =
     (if keys = [''-pub_date''] then sort_key (\<lambda>r. - pub_date (obj r)) rs
      else if keys = [''pub_date''] then sort_key (\<lambda>r. pub_date (obj r)) rs
      else rs)"

definition fetch :: "world \<Rightarrow> queryset \<Rightarrow> row list" where
  "fetch w q =
     ordered (qs_order_by q)
       (map (fetch_row w q)
          (filter (\<lambda>(k, p). list_all (holds w p) (qs_filter q))
             (manager_rows w (qs_manager q))))"

section \<open>Requests, responses and what a handler does\<close>

datatype http_method = GET | HEAD | POST | PUT | PATCH | DELETE | OPTIONS | TRACE

text \<open>
  \<^verbatim>\<open>request.user\<close> is the anonymous user or a row of the user table with its key. Django
  compares model instances by primary key, and no row equals the anonymous user:
  \<open>is_user u k\<close> is \<^verbatim>\<open>u == x\<close> for the user row \<open>x\<close> with key \<open>k\<close>.
\<close>

datatype requester = AnonymousUser | AuthUser nat User

fun is_authenticated :: "requester \<Rightarrow> bool" where
  "is_authenticated AnonymousUser = False"
| "is_authenticated (AuthUser k u) = True"

fun is_user :: "requester \<Rightarrow> nat \<Rightarrow> bool" where
  "is_user AnonymousUser k = False"
| "is_user (AuthUser i u) k = (i = k)"

text \<open>
  The URL configuration (\<^verbatim>\<open>blog/urls.py\<close>) maps a path to a view and its keyword
  arguments; the views read \<^verbatim>\<open>category_slug\<close>, \<^verbatim>\<open>username\<close>, \<^verbatim>\<open>post_id\<close> and
  \<^verbatim>\<open>comment_id\<close>. A resolved request names the view with these arguments (for the two
  comment views \<^verbatim>\<open>post_id\<close>, then \<^verbatim>\<open>comment_id\<close>).
\<close>

datatype view =
    IndexListView
  | CategoryListView string
  | ProfileListView string
  | add_comment_view nat
  | PostCreateView
  | PostDetailView nat
  | ProfileUpdateView
  | PostUpdateView nat
  | PostDeleteView nat
  | CommentUpdateView nat nat
  | CommentDeleteView nat nat
  | ProfileCreateView

text \<open>
  The form classes (\<^verbatim>\<open>blog/forms.py\<close>) are model forms. What a view uses of a form
  bound to the request's data is whether \<^verbatim>\<open>is_valid()\<close> holds and the instance it then
  yields; a request carries both for each form class: \<open>None\<close> when the data is not
  valid for that form, the instance otherwise. \<open>page\<close> is the request's \<^verbatim>\<open>page\<close>
  parameter, which the listings' paginator reads: absent or empty, an integer, the word
  \<^verbatim>\<open>last\<close>, or any other text.
\<close>

datatype page_arg = page_absent | page_int int | page_last | page_other

record request =
  view :: view
  request_method :: http_method
  user :: requester
  page :: page_arg
  PostEditForm :: "Post option"
  CommentEditForm :: "Comment option"
  UserEditForm :: "User option"

datatype url = blog_index | blog_post_detail nat | blog_profile string | login

datatype template_context =
    list_context "row list"
  | category_context "row list" "nat \<times> Category"
  | profile_context "row list" "nat \<times> User"
  | detail_context "nat \<times> Post" "(nat \<times> Comment) list"
  | form_context

datatype response =
    TemplateResponse string template_context
  | HttpResponseRedirect url
  | HttpResponseForbidden
  | HttpResponseNotAllowed
  | HttpResponseOptions

datatype error = Http404 | MultipleObjectsReturned | DoesNotExist | AttributeError | ValueError

text \<open>
  The events of a request, in the order the code performs them: a queryset built on a
  model by a call written in the two source files or by the generic view's
  \<^verbatim>\<open>get_object\<close>/\<^verbatim>\<open>get_queryset\<close> that the call goes through; a save or delete; the
  comparison of an object's author with \<^verbatim>\<open>request.user\<close>; the login check of
  \<^verbatim>\<open>login_required\<close> and \<^verbatim>\<open>LoginRequiredMixin\<close>; \<^verbatim>\<open>cache.clear()\<close>.
  The list does not record the further querysets a request causes inside the
  framework: loading a related object on first access (\<^verbatim>\<open>post.author\<close>,
  \<^verbatim>\<open>post.category\<close>, \<^verbatim>\<open>comment.author\<close>, \<^verbatim>\<open>comment.post\<close>), validating a form, counting
  and slicing in the paginator, loading the session's user. The \<open>Queryset\<close> events of a
  request are therefore some of the querysets it builds, not all of them.
\<close>

datatype model = Post_model | Comment_model | Category_model | User_model

datatype event = Queryset model | Write model | AuthorCheck | LoginCheck | CacheClear

record outcome =
  result :: "error + response"
  after :: world
  events :: "event list"

definition raises :: "error \<Rightarrow> world \<Rightarrow> event list \<Rightarrow> outcome" where
  "raises e w es = \<lparr>result = Inl e, after = w, events = es\<rparr>"

definition responds :: "response \<Rightarrow> world \<Rightarrow> event list \<Rightarrow> outcome" where
  "responds r w es = \<lparr>result = Inr r, after = w, events = es\<rparr>"

definition logged :: "event list \<Rightarrow> outcome \<Rightarrow> outcome" where
  "logged es out = out\<lparr>events := es @ events out\<rparr>"

text \<open>
  The server's side of a request: \<open>started\<close> is \<^verbatim>\<open>timezone.now()\<close> when the module
  \<^verbatim>\<open>views.py\<close> was imported, \<open>now\<close> its value while the request is handled, and
  \<open>MAX_POST_ON_PAGE\<close> the value of \<^verbatim>\<open>settings.MAX_POST_ON_PAGE\<close> (the settings module is
  not among the sources).
\<close>

record server =
  started :: int
  now :: int
  MAX_POST_ON_PAGE :: nat

subsection \<open>The framework's part\<close>

text \<open>
  \<^verbatim>\<open>get_object_or_404\<close> runs \<^verbatim>\<open>get()\<close> on the rows that satisfy the condition: no row
  raises Http404, more than one raises MultipleObjectsReturned. The generic views'
  \<^verbatim>\<open>get_object()\<close> is the same lookup by primary key.
\<close>

definition get_object_or_404 :: "'a table \<Rightarrow> (nat \<times> 'a \<Rightarrow> bool) \<Rightarrow> error + (nat \<times> 'a)" where
  "get_object_or_404 t cond =
     (case filter cond (all_rows t) of
        [] \<Rightarrow> Inl Http404
      | [x] \<Rightarrow> Inr x
      | x # y # zs \<Rightarrow> Inl MultipleObjectsReturned)"

definition pk_is :: "nat \<Rightarrow> nat \<times> 'a \<Rightarrow> bool" where
  "pk_is k = (\<lambda>(i, r). i = k)"

definition get_object :: "'a table \<Rightarrow> nat \<Rightarrow> error + (nat \<times> 'a)" where
  "get_object t k = get_object_or_404 t (pk_is k)"

text \<open>
  \<^verbatim>\<open>View.dispatch\<close> calls the method of the view named after the HTTP method, or
  \<^verbatim>\<open>http_method_not_allowed\<close>. A view with \<^verbatim>\<open>get\<close> answers HEAD with it, the form views
  answer PUT with \<^verbatim>\<open>post\<close>, and the deletion view's \<^verbatim>\<open>post\<close> calls \<^verbatim>\<open>delete\<close>
  (\<^verbatim>\<open>DeletionMixin\<close> of Django 3.2, the version the overridden \<^verbatim>\<open>delete\<close> methods of
  views.py are written for).
\<close>

datatype generic_view = ListView | DetailView | CreateView | UpdateView | DeleteView

datatype handler = to_get | to_post | to_delete | to_options | http_method_not_allowed

fun View_dispatch :: "generic_view \<Rightarrow> http_method \<Rightarrow> handler" where
  "View_dispatch v GET = to_get"
| "View_dispatch v HEAD = to_get"
| "View_dispatch v OPTIONS = to_options"
| "View_dispatch v POST =
     (if v = CreateView \<or> v = UpdateView then to_post
      else if v = DeleteView then to_delete else http_method_not_allowed)"
| "View_dispatch v PUT =
     (if v = CreateView \<or> v = UpdateView then to_post else http_method_not_allowed)"
| "View_dispatch v DELETE = (if v = DeleteView then to_delete else http_method_not_allowed)"
| "View_dispatch v PATCH = http_method_not_allowed"
| "View_dispatch v TRACE = http_method_not_allowed"

text \<open>
  \<^verbatim>\<open>LoginRequiredMixin.dispatch\<close> (and the decorator \<^verbatim>\<open>login_required\<close>): a requester
  who is not authenticated is redirected to the login page, otherwise the rest of the
  dispatch chain runs.
\<close>

definition LoginRequiredMixin_dispatch :: "request \<Rightarrow> world \<Rightarrow> outcome \<Rightarrow> outcome" where
  "LoginRequiredMixin_dispatch request w super_dispatch =
     (if \<not> is_authenticated (user request)
      then responds (HttpResponseRedirect login) w [LoginCheck]
      else logged [LoginCheck] super_dispatch)"

text \<open>
  A list view with \<^verbatim>\<open>paginate_by\<close> shows one page of its queryset
  (\<^verbatim>\<open>MultipleObjectMixin.paginate_queryset\<close> and \<^verbatim>\<open>Paginator.page\<close>, with no orphans and an
  empty first page allowed). The number of pages is at least one; the page number is 1
  when the parameter is absent, the last page for \<^verbatim>\<open>last\<close>; a parameter that is no
  number and a number outside the pages raise Http404. A page size of 0 turns
  pagination off.
\<close>

definition num_pages :: "nat \<Rightarrow> nat \<Rightarrow> nat" where
  "num_pages hits per_page = (max 1 hits + per_page - 1) div per_page"

definition paginate_queryset :: "row list \<Rightarrow> nat \<Rightarrow> page_arg \<Rightarrow> error + row list" where
  "paginate_queryset queryset page_size p =
     (case (case p of
              page_absent \<Rightarrow> Some 1
            | page_int i \<Rightarrow> Some i
            | page_last \<Rightarrow> Some (int (num_pages (length queryset) page_size))
            | page_other \<Rightarrow> None) of
        None \<Rightarrow> Inl Http404
      | Some page_number \<Rightarrow>
          (if page_number < 1 \<or> int (num_pages (length queryset) page_size) < page_number
           then Inl Http404
           else Inr (take page_size (drop ((nat page_number - 1) * page_size) queryset))))"

definition ListView_render ::
  "string \<Rightarrow> (row list \<Rightarrow> template_context) \<Rightarrow> nat \<Rightarrow> page_arg \<Rightarrow> row list \<Rightarrow> world
     \<Rightarrow> event list \<Rightarrow> outcome" where
  "ListView_render template_name ctx page_size p object_list w es =
     (case (if page_size = 0 then Inr object_list
            else paginate_queryset object_list page_size p) of
        Inl e \<Rightarrow> raises e w es
      | Inr page_rows \<Rightarrow> responds (TemplateResponse template_name (ctx page_rows)) w es)"

section \<open>The views\<close>

subsection \<open>Listings (views.py, lines 38 to 88)\<close>

text \<open>
  \<^verbatim>\<open>IndexListView.queryset = create_queryset()\<close> is a class attribute: the queryset is
  built once, when the module is imported, and its date filter holds the time of the
  import. Each request evaluates it on the database of that moment, after
  \<^verbatim>\<open>ListView.get_queryset\<close> has applied \<^verbatim>\<open>ordering = '-pub_date'\<close>. The three listings
  paginate by \<^verbatim>\<open>settings.MAX_POST_ON_PAGE\<close>; the context holds the rows of the page.
\<close>

definition IndexListView_queryset :: "server \<Rightarrow> queryset" where
  "IndexListView_queryset clk = create_queryset Post_objects True True (started clk)"

definition IndexListView_get :: "server \<Rightarrow> world \<Rightarrow> request \<Rightarrow> outcome" where
  "IndexListView_get clk w request =
     ListView_render ''blog/index.html'' list_context (MAX_POST_ON_PAGE clk) (page request)
       (fetch w (order_by (IndexListView_queryset clk) [''-pub_date'']))
       w [Queryset Post_model]"

definition CategoryListView_get_queryset ::
  "server \<Rightarrow> world \<Rightarrow> string \<Rightarrow> error + ((nat \<times> Category) \<times> queryset)" where
  "CategoryListView_get_queryset clk w category_slug =
     (case get_object_or_404 (Category_table w)
             (\<lambda>(k, c). slug c = category_slug \<and> category_is_published c = True) of
        Inl e \<Rightarrow> Inl e
      | Inr cat \<Rightarrow> Inr (cat, create_queryset (category_posts (fst cat)) True True (now clk)))"

definition CategoryListView_get :: "server \<Rightarrow> world \<Rightarrow> request \<Rightarrow> string \<Rightarrow> outcome" where
  "CategoryListView_get clk w request category_slug =
     (case CategoryListView_get_queryset clk w category_slug of
        Inl e \<Rightarrow> raises e w [Queryset Category_model]
      | Inr (cat, queryset) \<Rightarrow>
          ListView_render ''blog/category.html'' (\<lambda>page_rows. category_context page_rows cat)
            (MAX_POST_ON_PAGE clk) (page request) (fetch w queryset)
            w [Queryset Category_model, Queryset Post_model])"

definition ProfileListView_get_queryset ::
  "server \<Rightarrow> world \<Rightarrow> request \<Rightarrow> string \<Rightarrow> error + ((nat \<times> User) \<times> queryset)" where
  "ProfileListView_get_queryset clk w request name =
     (case get_object_or_404 (User_table w) (\<lambda>(k, u). username u = name) of
        Inl e \<Rightarrow> Inl e
      | Inr self_author \<Rightarrow>
          (if \<not> is_user (user request) (fst self_author)
           then Inr (self_author,
                     create_queryset (author_posts (fst self_author)) True True (now clk))
           else Inr (self_author,
                     create_queryset (author_posts (fst self_author)) False True (now clk))))"

definition ProfileListView_get :: "server \<Rightarrow> world \<Rightarrow> request \<Rightarrow> string \<Rightarrow> outcome" where
  "ProfileListView_get clk w request name =
     (case ProfileListView_get_queryset clk w request name of
        Inl e \<Rightarrow> raises e w [Queryset User_model]
      | Inr (self_author, queryset) \<Rightarrow>
          ListView_render ''blog/profile.html''
            (\<lambda>page_rows. profile_context page_rows self_author)
            (MAX_POST_ON_PAGE clk) (page request) (fetch w queryset)
            w [Queryset User_model, Queryset Post_model])"

subsection \<open>Comments and posts (views.py, lines 91 to 134)\<close>

text \<open>
  \<^verbatim>\<open>add_comment\<close> is a function view under \<^verbatim>\<open>login_required\<close>; it does not look at the
  HTTP method. \<^verbatim>\<open>form.save(commit=False)\<close> gives the unsaved instance, the two
  assignments set its author and post, \<^verbatim>\<open>save()\<close> inserts it.
\<close>

definition add_comment :: "world \<Rightarrow> request \<Rightarrow> nat \<Rightarrow> outcome" where
  "add_comment w request post_id =
     (case user request of
        AnonymousUser \<Rightarrow> responds (HttpResponseRedirect login) w [LoginCheck]
      | AuthUser uid u \<Rightarrow>
          (case get_object_or_404 (Post_table w) (pk_is post_id) of
             Inl e \<Rightarrow> raises e w [LoginCheck, Queryset Post_model]
           | Inr comment \<Rightarrow>
               (case CommentEditForm request of
                  Some commentary \<Rightarrow>
                    responds (HttpResponseRedirect (blog_post_detail post_id))
                      (w\<lparr>Comment_table :=
                           insert_row (Comment_table w)
                             (commentary\<lparr>comment_author := uid,
                                          comment_post := fst comment\<rparr>)\<rparr>)
                      [LoginCheck, Queryset Post_model, Write Comment_model]
                | None \<Rightarrow>
                    responds (HttpResponseRedirect (blog_post_detail post_id)) w
                      [LoginCheck, Queryset Post_model])))"

text \<open>
  \<^verbatim>\<open>PostCreateView\<close>: the form page on GET; on POST a valid form is saved with the
  requester as author and the response redirects to the requester's profile
  (\<^verbatim>\<open>ProfileSuccessUrlMixin\<close>), an invalid form is shown again.
\<close>

definition PostCreateView_form_valid :: "world \<Rightarrow> request \<Rightarrow> Post \<Rightarrow> outcome" where
  "PostCreateView_form_valid w request instance =
     (case user request of
        AnonymousUser \<Rightarrow> raises ValueError w []
      | AuthUser uid u \<Rightarrow>
          responds (HttpResponseRedirect (blog_profile (username u)))
            (w\<lparr>Post_table := insert_row (Post_table w) (instance\<lparr>author := uid\<rparr>)\<rparr>)
            [Write Post_model])"

definition PostCreateView_dispatch :: "world \<Rightarrow> request \<Rightarrow> outcome" where
  "PostCreateView_dispatch w request =
     LoginRequiredMixin_dispatch request w
       (case View_dispatch CreateView (request_method request) of
          to_get \<Rightarrow> responds (TemplateResponse ''blog/create.html'' form_context) w []
        | to_post \<Rightarrow>
            (case PostEditForm request of
               Some instance \<Rightarrow> PostCreateView_form_valid w request instance
             | None \<Rightarrow> responds (TemplateResponse ''blog/create.html'' form_context) w [])
        | to_options \<Rightarrow> responds HttpResponseOptions w []
        | _ \<Rightarrow> responds HttpResponseNotAllowed w [])"

text \<open>
  \<^verbatim>\<open>PostDetailView.get_object\<close>, lines 127 to 134. Python evaluates the condition from
  left to right and stops as soon as it is decided, so \<^verbatim>\<open>post.category\<close> is read only
  for a requester who is not the author and a post that is published; a post without
  a category then raises AttributeError.
\<close>

definition PostDetailView_get_object ::
  "server \<Rightarrow> world \<Rightarrow> request \<Rightarrow> nat \<Rightarrow> error + (nat \<times> Post)" where
  "PostDetailView_get_object clk w request post_id =
     (case get_object (Post_table w) post_id of
        Inl e \<Rightarrow> Inl e
      | Inr post \<Rightarrow>
          (if \<not> is_user (user request) (author (snd post))
           then (if \<not> is_published (snd post) then Inl Http404
                 else (case category (snd post) of
                         None \<Rightarrow> Inl AttributeError
                       | Some c \<Rightarrow>
                           (case row_at (Category_table w) c of
                              None \<Rightarrow> Inl DoesNotExist
                            | Some cat \<Rightarrow>
                                (if \<not> category_is_published cat
                                    \<or> pub_date (snd post) > now clk
                                 then Inl Http404
                                 else Inr post))))
           else Inr post))"

definition PostDetailView_get_context_data :: "world \<Rightarrow> nat \<times> Post \<Rightarrow> template_context" where
  "PostDetailView_get_context_data w post =
     detail_context post
       (filter (\<lambda>(i, c). comment_post c = fst post) (all_rows (Comment_table w)))"

definition PostDetailView_get :: "server \<Rightarrow> world \<Rightarrow> request \<Rightarrow> nat \<Rightarrow> outcome" where
  "PostDetailView_get clk w request post_id =
     (case PostDetailView_get_object clk w request post_id of
        Inl e \<Rightarrow>
          raises e w
            (case get_object (Post_table w) post_id of
               Inl e' \<Rightarrow> [Queryset Post_model]
             | Inr post \<Rightarrow> [Queryset Post_model, AuthorCheck])
      | Inr post \<Rightarrow>
          responds
            (TemplateResponse ''blog/detail.html'' (PostDetailView_get_context_data w post))
            w [Queryset Post_model, AuthorCheck, Queryset Comment_model])"

subsection \<open>Editing the profile and posts (views.py, lines 137 to 176; mixins.py, lines 19 to 32)\<close>

text \<open>
  \<^verbatim>\<open>ProfileUpdateView.get_object\<close> is \<^verbatim>\<open>request.user\<close>: the form edits the requester's own
  row, and the success URL is built from the edited instance.
\<close>

definition ProfileUpdateView_dispatch :: "world \<Rightarrow> request \<Rightarrow> outcome" where
  "ProfileUpdateView_dispatch w request =
     LoginRequiredMixin_dispatch request w
       (case View_dispatch UpdateView (request_method request) of
          to_get \<Rightarrow> responds (TemplateResponse ''blog/user.html'' form_context) w []
        | to_post \<Rightarrow>
            (case UserEditForm request of
               Some instance \<Rightarrow>
                 (case user request of
                    AnonymousUser \<Rightarrow> raises AttributeError w []
                  | AuthUser uid u \<Rightarrow>
                      responds (HttpResponseRedirect (blog_profile (username instance)))
                        (w\<lparr>User_table := save_row (User_table w) uid instance\<rparr>)
                        [Write User_model])
             | None \<Rightarrow> responds (TemplateResponse ''blog/user.html'' form_context) w [])
        | to_options \<Rightarrow> responds HttpResponseOptions w []
        | _ \<Rightarrow> responds HttpResponseNotAllowed w [])"

text \<open>
  \<^verbatim>\<open>CommonPostMixin.dispatch\<close>: the post is looked up and its author compared with the
  requester before the rest of the chain (\<^verbatim>\<open>LoginRequiredMixin\<close>, then the method's
  handler) runs.
\<close>

definition CommonPostMixin_dispatch :: "request \<Rightarrow> world \<Rightarrow> nat \<Rightarrow> outcome \<Rightarrow> outcome" where
  "CommonPostMixin_dispatch request w post_id super_dispatch =
     (case get_object_or_404 (Post_table w) (pk_is post_id) of
        Inl e \<Rightarrow> raises e w [Queryset Post_model]
      | Inr post \<Rightarrow>
          (if \<not> is_user (user request) (author (snd post))
           then responds (HttpResponseRedirect (blog_post_detail (fst post))) w
                  [Queryset Post_model, AuthorCheck]
           else logged [Queryset Post_model, AuthorCheck] super_dispatch))"

definition PostUpdateView_handler :: "world \<Rightarrow> request \<Rightarrow> nat \<Rightarrow> outcome" where
  "PostUpdateView_handler w request post_id =
     (case View_dispatch UpdateView (request_method request) of
        to_get \<Rightarrow>
          (case get_object (Post_table w) post_id of
             Inl e \<Rightarrow> raises e w [Queryset Post_model]
           | Inr post \<Rightarrow>
               responds (TemplateResponse ''blog/create.html'' form_context) w
                 [Queryset Post_model])
      | to_post \<Rightarrow>
          (case get_object (Post_table w) post_id of
             Inl e \<Rightarrow> raises e w [Queryset Post_model]
           | Inr post \<Rightarrow>
               (case PostEditForm request of
                  Some instance \<Rightarrow>
                    responds (HttpResponseRedirect (blog_post_detail (fst post)))
                      (w\<lparr>Post_table := save_row (Post_table w) (fst post) instance\<rparr>)
                      [Queryset Post_model, Write Post_model]
                | None \<Rightarrow>
                    responds (TemplateResponse ''blog/create.html'' form_context) w
                      [Queryset Post_model]))
      | to_options \<Rightarrow> responds HttpResponseOptions w []
      | _ \<Rightarrow> responds HttpResponseNotAllowed w [])"

definition PostUpdateView_dispatch :: "world \<Rightarrow> request \<Rightarrow> nat \<Rightarrow> outcome" where
  "PostUpdateView_dispatch w request post_id =
     CommonPostMixin_dispatch request w post_id
       (LoginRequiredMixin_dispatch request w (PostUpdateView_handler w request post_id))"

text \<open>
  \<^verbatim>\<open>PostDeleteView.delete\<close>, lines 171 to 176: the post's comments are deleted, the
  cache is cleared, and \<^verbatim>\<open>super().delete\<close> (\<open>DeletionMixin_delete\<close>) looks the post up
  again, deletes it and redirects to \<^verbatim>\<open>success_url\<close>, the index.
\<close>

definition DeletionMixin_delete :: "world \<Rightarrow> nat \<Rightarrow> outcome" where
  "DeletionMixin_delete w post_id =
     (case get_object (Post_table w) post_id of
        Inl e \<Rightarrow> raises e w [Queryset Post_model]
      | Inr post \<Rightarrow>
          responds (HttpResponseRedirect blog_index)
            (w\<lparr>Post_table := delete_row (Post_table w) (fst post)\<rparr>)
            [Queryset Post_model, Write Post_model])"

definition PostDeleteView_delete :: "world \<Rightarrow> nat \<Rightarrow> outcome" where
  "PostDeleteView_delete w post_id =
     (case get_object (Post_table w) post_id of
        Inl e \<Rightarrow> raises e w [Queryset Post_model]
      | Inr post \<Rightarrow>
          logged [Queryset Post_model, Queryset Comment_model, Write Comment_model, CacheClear]
            (DeletionMixin_delete
               (w\<lparr>Comment_table :=
                    delete_where (\<lambda>c. comment_post c = fst post) (Comment_table w),
                  cache := []\<rparr>)
               post_id))"

definition PostDeleteView_handler :: "world \<Rightarrow> request \<Rightarrow> nat \<Rightarrow> outcome" where
  "PostDeleteView_handler w request post_id =
     (case View_dispatch DeleteView (request_method request) of
        to_get \<Rightarrow>
          (case get_object (Post_table w) post_id of
             Inl e \<Rightarrow> raises e w [Queryset Post_model]
           | Inr post \<Rightarrow>
               responds (TemplateResponse ''blog/create.html'' form_context) w
                 [Queryset Post_model])
      | to_delete \<Rightarrow> PostDeleteView_delete w post_id
      | to_options \<Rightarrow> responds HttpResponseOptions w []
      | _ \<Rightarrow> responds HttpResponseNotAllowed w [])"

definition PostDeleteView_dispatch :: "world \<Rightarrow> request \<Rightarrow> nat \<Rightarrow> outcome" where
  "PostDeleteView_dispatch w request post_id =
     (case get_object (Post_table w) post_id of
        Inl e \<Rightarrow> raises e w [Queryset Post_model]
      | Inr self_object \<Rightarrow>
          (if \<not> is_user (user request) (author (snd self_object))
           then responds HttpResponseForbidden w [Queryset Post_model, AuthorCheck]
           else logged [Queryset Post_model, AuthorCheck]
                  (LoginRequiredMixin_dispatch request w
                     (PostDeleteView_handler w request post_id))))"

subsection \<open>Editing comments, registration (views.py, lines 179 to 220; mixins.py, lines 35 to 53)\<close>

definition CommentMixin_dispatch :: "request \<Rightarrow> world \<Rightarrow> nat \<Rightarrow> outcome \<Rightarrow> outcome" where
  "CommentMixin_dispatch request w comment_id super_dispatch =
     (case get_object_or_404 (Comment_table w) (pk_is comment_id) of
        Inl e \<Rightarrow> raises e w [Queryset Comment_model]
      | Inr comment \<Rightarrow>
          (if \<not> is_user (user request) (comment_author (snd comment))
           then responds (HttpResponseRedirect (blog_post_detail (comment_post (snd comment)))) w
                  [Queryset Comment_model, AuthorCheck]
           else logged [Queryset Comment_model, AuthorCheck] super_dispatch))"

definition CommentUpdateView_handler :: "world \<Rightarrow> request \<Rightarrow> nat \<Rightarrow> nat \<Rightarrow> outcome" where
  "CommentUpdateView_handler w request post_id comment_id =
     (case View_dispatch UpdateView (request_method request) of
        to_get \<Rightarrow>
          (case get_object (Comment_table w) comment_id of
             Inl e \<Rightarrow> raises e w [Queryset Comment_model]
           | Inr comment \<Rightarrow>
               responds (TemplateResponse ''blog/comment.html'' form_context) w
                 [Queryset Comment_model])
      | to_post \<Rightarrow>
          (case get_object (Comment_table w) comment_id of
             Inl e \<Rightarrow> raises e w [Queryset Comment_model]
           | Inr comment \<Rightarrow>
               (case CommentEditForm request of
                  Some instance \<Rightarrow>
                    responds (HttpResponseRedirect (blog_post_detail post_id))
                      (w\<lparr>Comment_table := save_row (Comment_table w) (fst comment) instance\<rparr>)
                      [Queryset Comment_model, Write Comment_model]
                | None \<Rightarrow>
                    responds (TemplateResponse ''blog/comment.html'' form_context) w
                      [Queryset Comment_model]))
      | to_options \<Rightarrow> responds HttpResponseOptions w []
      | _ \<Rightarrow> responds HttpResponseNotAllowed w [])"

definition CommentUpdateView_dispatch :: "world \<Rightarrow> request \<Rightarrow> nat \<Rightarrow> nat \<Rightarrow> outcome" where
  "CommentUpdateView_dispatch w request post_id comment_id =
     CommentMixin_dispatch request w comment_id
       (LoginRequiredMixin_dispatch request w
          (CommentUpdateView_handler w request post_id comment_id))"

definition CommentDeleteView_delete :: "world \<Rightarrow> nat \<Rightarrow> nat \<Rightarrow> outcome" where
  "CommentDeleteView_delete w post_id comment_id =
     (case get_object (Comment_table w) comment_id of
        Inl e \<Rightarrow> raises e w [Queryset Comment_model]
      | Inr comment \<Rightarrow>
          responds (HttpResponseRedirect (blog_post_detail post_id))
            (w\<lparr>Comment_table := delete_row (Comment_table w) (fst comment)\<rparr>)
            [Queryset Comment_model, Write Comment_model])"

definition CommentDeleteView_handler :: "world \<Rightarrow> request \<Rightarrow> nat \<Rightarrow> nat \<Rightarrow> outcome" where
  "CommentDeleteView_handler w request post_id comment_id =
     (case View_dispatch DeleteView (request_method request) of
        to_get \<Rightarrow>
          (case get_object (Comment_table w) comment_id of
             Inl e \<Rightarrow> raises e w [Queryset Comment_model]
           | Inr comment \<Rightarrow>
               responds (TemplateResponse ''blog/comment.html'' form_context) w
                 [Queryset Comment_model])
      | to_delete \<Rightarrow> CommentDeleteView_delete w post_id comment_id
      | to_options \<Rightarrow> responds HttpResponseOptions w []
      | _ \<Rightarrow> responds HttpResponseNotAllowed w [])"

definition CommentDeleteView_dispatch :: "world \<Rightarrow> request \<Rightarrow> nat \<Rightarrow> nat \<Rightarrow> outcome" where
  "CommentDeleteView_dispatch w request post_id comment_id =
     (case get_object_or_404 (Comment_table w) (pk_is comment_id) of
        Inl e \<Rightarrow> raises e w [Queryset Comment_model]
      | Inr comment \<Rightarrow>
          (if \<not> is_user (user request) (comment_author (snd comment))
           then responds HttpResponseForbidden w [Queryset Comment_model, AuthorCheck]
           else logged [Queryset Comment_model, AuthorCheck]
                  (LoginRequiredMixin_dispatch request w
                     (CommentDeleteView_handler w request post_id comment_id))))"

definition ProfileCreateView_dispatch :: "world \<Rightarrow> request \<Rightarrow> outcome" where
  "ProfileCreateView_dispatch w request =
     (case View_dispatch CreateView (request_method request) of
        to_get \<Rightarrow>
          responds (TemplateResponse ''registration/registration_form.html'' form_context) w []
      | to_post \<Rightarrow>
          (case UserEditForm request of
             Some instance \<Rightarrow>
               responds (HttpResponseRedirect login)
                 (w\<lparr>User_table := insert_row (User_table w) instance\<rparr>) [Write User_model]
           | None \<Rightarrow>
               responds (TemplateResponse ''registration/registration_form.html'' form_context)
                 w [])
      | to_options \<Rightarrow> responds HttpResponseOptions w []
      | _ \<Rightarrow> responds HttpResponseNotAllowed w [])"

subsection \<open>One request\<close>

text \<open>
  The views that only read answer GET and HEAD; \<open>handle\<close> is the whole layer: the
  resolved view is called with the request.
\<close>

definition read_only :: "http_method \<Rightarrow> world \<Rightarrow> outcome \<Rightarrow> outcome" where
  "read_only m w on_get =
     (case View_dispatch ListView m of
        to_get \<Rightarrow> on_get
      | to_options \<Rightarrow> responds HttpResponseOptions w []
      | _ \<Rightarrow> responds HttpResponseNotAllowed w [])"

definition handle :: "server \<Rightarrow> world \<Rightarrow> request \<Rightarrow> outcome" where
  "handle clk w request =
     (case view request of
        IndexListView \<Rightarrow> read_only (request_method request) w (IndexListView_get clk w request)
      | CategoryListView category_slug \<Rightarrow>
          read_only (request_method request) w (CategoryListView_get clk w request category_slug)
      | ProfileListView name \<Rightarrow>
          read_only (request_method request) w (ProfileListView_get clk w request name)
      | add_comment_view post_id \<Rightarrow> add_comment w request post_id
      | PostCreateView \<Rightarrow> PostCreateView_dispatch w request
      | PostDetailView post_id \<Rightarrow>
          read_only (request_method request) w (PostDetailView_get clk w request post_id)
      | ProfileUpdateView \<Rightarrow> ProfileUpdateView_dispatch w request
      | PostUpdateView post_id \<Rightarrow> PostUpdateView_dispatch w request post_id
      | PostDeleteView post_id \<Rightarrow> PostDeleteView_dispatch w request post_id
      | CommentUpdateView post_id comment_id \<Rightarrow>
          CommentUpdateView_dispatch w request post_id comment_id
      | CommentDeleteView post_id comment_id \<Rightarrow>
          CommentDeleteView_dispatch w request post_id comment_id
      | ProfileCreateView \<Rightarrow> ProfileCreateView_dispatch w request)"

section \<open>What the properties talk about\<close>

text \<open>
  The three publication conditions on a post at time \<open>t\<close>: its date is earlier than
  \<open>t\<close>, it is published, and it has a category that is published.
\<close>

definition published_at :: "world \<Rightarrow> int \<Rightarrow> Post \<Rightarrow> bool" where
  "published_at w t p =
     (pub_date p < t \<and> is_published p
      \<and> (case category p of
            None \<Rightarrow> False
          | Some c \<Rightarrow> (case row_at (Category_table w) c of
                        None \<Rightarrow> False
                      | Some cat \<Rightarrow> category_is_published cat)))"

text \<open>
  The author of the object a mutation request is aimed at: the post of
  \<open>PostUpdateView\<close> and \<open>PostDeleteView\<close>, the comment of \<open>CommentUpdateView\<close> and
  \<open>CommentDeleteView\<close>; \<open>None\<close> for the other views and for an object that does not
  exist. \<open>target_model\<close> is the model of that object.
\<close>

fun target_author :: "world \<Rightarrow> view \<Rightarrow> nat option" where
  "target_author w (PostUpdateView post_id) = map_option author (row_at (Post_table w) post_id)"
| "target_author w (PostDeleteView post_id) = map_option author (row_at (Post_table w) post_id)"
| "target_author w (CommentUpdateView post_id comment_id) =
     map_option comment_author (row_at (Comment_table w) comment_id)"
| "target_author w (CommentDeleteView post_id comment_id) =
     map_option comment_author (row_at (Comment_table w) comment_id)"
| "target_author w v = None"

fun target_model :: "view \<Rightarrow> model" where
  "target_model (CommentUpdateView post_id comment_id) = Comment_model"
| "target_model (CommentDeleteView post_id comment_id) = Comment_model"
| "target_model v = Post_model"

text \<open>Kinds of events, and two shapes of a request's events.\<close>

fun is_check :: "event \<Rightarrow> bool" where
  "is_check AuthorCheck = True"
| "is_check LoginCheck = True"
| "is_check e = False"

fun is_queryset :: "event \<Rightarrow> bool" where
  "is_queryset (Queryset m) = True"
| "is_queryset e = False"

fun is_write :: "event \<Rightarrow> bool" where
  "is_write (Write m) = True"
| "is_write e = False"

text \<open>
  \<open>check_then_one_access\<close>: an authorization check, then exactly one database read or
  write, and nothing else. \<open>writes_guarded\<close>: no write happens before the first
  authorization check.
\<close>

fun check_then_one_access :: "event list \<Rightarrow> bool" where
  "check_then_one_access [c, a] = (is_check c \<and> (is_queryset a \<or> is_write a))"
| "check_then_one_access es = False"

fun writes_guarded :: "event list \<Rightarrow> bool" where
  "writes_guarded [] = True"
| "writes_guarded (e # es) =
     (if is_check e then True else if is_write e then False else writes_guarded es)"

text \<open>
  \<open>querysets_built\<close> counts the \<open>Queryset\<close> events of a request: the querysets the
  views' code builds. A request builds at least that many. \<open>same_but_cache a b\<close>: two
  outcomes with the same result, the same events and the same four tables afterwards.
\<close>

definition querysets_built :: "outcome \<Rightarrow> nat" where
  "querysets_built out = length (filter is_queryset (events out))"

definition same_but_cache :: "outcome \<Rightarrow> outcome \<Rightarrow> bool" where
  "same_but_cache a b =
     (result a = result b \<and> events a = events b
      \<and> Post_table (after a) = Post_table (after b)
      \<and> Comment_table (after a) = Comment_table (after b)
      \<and> Category_table (after a) = Category_table (after b)
      \<and> User_table (after a) = User_table (after b))"

subsection \<open>A small blog\<close>

text \<open>
  Two users (anna, key 0; boris, key 1), one published category, three posts (the
  third an unpublished draft of anna's without a category, dated 90), two comments and
  a cache entry; a server started at time 30 and handling requests at time 50, with ten
  posts on a page; requests without a page parameter or form data.
\<close>

definition blog0 :: world where
  "blog0 =
     \<lparr>Post_table =
        [Some \<lparr>author = 0, pub_date = 10, is_published = True, category = Some 0,
               post_text = ''first''\<rparr>,
         Some \<lparr>author = 1, pub_date = 20, is_published = True, category = Some 0,
               post_text = ''second''\<rparr>,
         Some \<lparr>author = 0, pub_date = 90, is_published = False, category = None,
               post_text = ''draft''\<rparr>],
      Comment_table =
        [Some \<lparr>comment_author = 1, comment_post = 0, comment_text = ''hello''\<rparr>,
         Some \<lparr>comment_author = 0, comment_post = 1, comment_text = ''thanks''\<rparr>],
      Category_table = [Some \<lparr>slug = ''travel'', category_is_published = True\<rparr>],
      User_table = [Some \<lparr>username = ''anna''\<rparr>, Some \<lparr>username = ''boris''\<rparr>],
      cache = [(''page'', ''cached'')]\<rparr>"

definition clock0 :: server where
  "clock0 = \<lparr>started = 30, now = 50, MAX_POST_ON_PAGE = 10\<rparr>"

definition anna :: requester where
  "anna = AuthUser 0 \<lparr>username = ''anna''\<rparr>"

definition boris :: requester where
  "boris = AuthUser 1 \<lparr>username = ''boris''\<rparr>"

definition plain_request :: "view \<Rightarrow> http_method \<Rightarrow> requester \<Rightarrow> request" where
  "plain_request v m u =
     \<lparr>view = v, request_method = m, user = u, page = page_absent, PostEditForm = None,
      CommentEditForm = None, UserEditForm = None\<rparr>"

section \<open>Tables\<close>

lemma filter_pk_rows_from:
  "filter (pk_is k) (rows_from n t) =
     (if n \<le> k \<and> k - n < length t
      then (case t ! (k - n) of None \<Rightarrow> [] | Some r \<Rightarrow> [(k, r)])
      else [])"
proof (induction n t rule: rows_from.induct)
  case (1 n)
  then show ?case by simp
next
  case (2 n t)
  then show ?case by (auto simp: pk_is_def nth_Cons' Suc_diff_le split: option.splits)
next
  case (3 n x t)
  then show ?case by (auto simp: pk_is_def nth_Cons' Suc_diff_le split: option.splits)
qed

lemma filter_pk_all_rows:
  "filter (pk_is k) (all_rows t) = (case row_at t k of None \<Rightarrow> [] | Some r \<Rightarrow> [(k, r)])"
  by (simp add: all_rows_def row_at_def filter_pk_rows_from)

lemma get_object_or_404_pk:
  "get_object_or_404 t (pk_is k) =
     (case row_at t k of None \<Rightarrow> Inl Http404 | Some r \<Rightarrow> Inr (k, r))"
  by (simp add: get_object_or_404_def filter_pk_all_rows split: option.splits)

lemma get_object_pk:
  "get_object t k = (case row_at t k of None \<Rightarrow> Inl Http404 | Some r \<Rightarrow> Inr (k, r))"
  by (simp add: get_object_def get_object_or_404_pk)

lemma set_rows_from:
  "((k, r) \<in> set (rows_from n t)) = (n \<le> k \<and> k - n < length t \<and> t ! (k - n) = Some r)"
proof (induction n t rule: rows_from.induct)
  case (1 n)
  then show ?case by simp
next
  case (2 n t)
  then show ?case by (auto simp: nth_Cons' Suc_diff_le)
next
  case (3 n x t)
  then show ?case by (auto simp: nth_Cons' Suc_diff_le)
qed

lemma set_all_rows: "((k, r) \<in> set (all_rows t)) = (row_at t k = Some r)"
  by (simp add: all_rows_def row_at_def set_rows_from)

lemma row_at_delete_row: "row_at (delete_row t k) i = (if i = k then None else row_at t i)"
  by (auto simp: row_at_def delete_row_def)

lemma row_at_delete_where:
  "row_at (delete_where c t) i =
     (case row_at t i of None \<Rightarrow> None | Some x \<Rightarrow> if c x then None else Some x)"
  by (simp add: row_at_def delete_where_def)

lemma rows_from_append:
  "rows_from n (t @ [Some r]) = rows_from n t @ [(n + length t, r)]"
  by (induction n t rule: rows_from.induct) simp_all

lemma all_rows_insert_row:
  "all_rows (insert_row t r) = all_rows t @ [(length t, r)]"
  by (simp add: all_rows_def insert_row_def rows_from_append)

lemma row_at_insert_row:
  "row_at (insert_row t r) i = (if i = length t then Some r else row_at t i)"
  by (auto simp: row_at_def insert_row_def nth_append)

section \<open>Query construction\<close>

lemma create_queryset_clauses:
  "qs_manager (create_queryset m f a t) = m"
  "qs_filter (create_queryset m f a t) =
     (if f then [pub_date__lt t, is_published_is True, category__is_published_is True] else [])"
  "qs_annotate (create_queryset m f a t) = (if a then [(''comment_count'', ''comments'')] else [])"
  "qs_order_by (create_queryset m f a t) = (if a then [''-pub_date''] else [])"
  by (simp_all add: create_queryset_def Let_def select_related_def filter_qs_def annotate_def
        order_by_def)

lemma pk_obj_fetch_row: "(\<lambda>r. (pk r, obj r)) \<circ> fetch_row w q = id"
  by (auto simp: fetch_row_def)

lemma mset_ordered: "mset (ordered keys rs) = mset rs"
  by (simp add: ordered_def)

lemma ordered_desc:
  "sorted_wrt (\<lambda>x y. pub_date (obj y) \<le> pub_date (obj x)) (ordered [''-pub_date''] rs)"
proof -
  have "sorted (map (\<lambda>r. - pub_date (obj r)) (sort_key (\<lambda>r. - pub_date (obj r)) rs))"
    by (rule sorted_sort_key)
  then show ?thesis
    by (simp add: ordered_def sorted_map)
qed

lemma filter_of_create_queryset:
  "(\<lambda>(k, p). list_all (holds w p) (qs_filter (create_queryset m f a t)))
     = (\<lambda>(k, p). f \<longrightarrow> published_at w t p)"
  by (auto simp: create_queryset_clauses fun_eq_iff published_at_def split: option.splits)

lemma fetch_create_queryset:
  "fetch w (create_queryset m f a t) =
     ordered (if a then [''-pub_date''] else [])
       (map (fetch_row w (create_queryset m f a t))
          (filter (\<lambda>(k, p). f \<longrightarrow> published_at w t p) (manager_rows w m)))"
  unfolding fetch_def filter_of_create_queryset
  by (simp only: create_queryset_clauses(1,4))

lemma fetch_create_queryset_mset:
  "mset (map (\<lambda>r. (pk r, obj r)) (fetch w (create_queryset m f a t))) =
     mset (filter (\<lambda>(k, p). f \<longrightarrow> published_at w t p) (manager_rows w m))"
  by (simp add: fetch_create_queryset mset_ordered multiset.map_comp pk_obj_fetch_row)

lemma set_ordered: "set (ordered keys rs) = set rs"
  by (simp add: ordered_def)

lemma fetch_create_queryset_annotations:
  assumes "r \<in> set (fetch w (create_queryset m f a t))"
  shows "annotation_values r =
           (if a
            then [(''comment_count'',
                   length (filter (\<lambda>(i, c). comment_post c = pk r)
                             (all_rows (Comment_table w))))]
            else [])"
proof -
  from assms obtain kp where "r = fetch_row w (create_queryset m f a t) kp"
    by (auto simp: fetch_create_queryset set_ordered)
  then show ?thesis
    by (simp add: fetch_row_def create_queryset_clauses count_related_def)
qed

lemma fetch_create_queryset_unordered:
  "map (\<lambda>r. (pk r, obj r)) (fetch w (create_queryset m f False t)) =
     filter (\<lambda>(k, p). f \<longrightarrow> published_at w t p) (manager_rows w m)"
  by (simp add: fetch_create_queryset ordered_def pk_obj_fetch_row)

text \<open>
  C2. For every manager and both flags: the rows \<open>create_queryset\<close> yields are the
  manager's rows that pass the publication filters when \<open>filters\<close> is true, and all of
  the manager's rows when it is false; every row carries the \<open>comment_count\<close> annotation
  (the number of the post's comments) exactly when \<open>annotations\<close> is true; with
  \<open>annotations\<close> true the rows are ordered by descending \<open>pub_date\<close>, with it false no
  ordering is set and the rows keep the manager's order. With both flags false the
  result is the manager's rows as they are.
\<close>

theorem create_queryset_flags:
  "mset (map (\<lambda>r. (pk r, obj r)) (fetch w (create_queryset m f a t))) =
     mset (filter (\<lambda>(k, p). f \<longrightarrow> published_at w t p) (manager_rows w m))
   \<and> (\<forall>r \<in> set (fetch w (create_queryset m f a t)).
         annotation_values r =
           (if a
            then [(''comment_count'',
                   length (filter (\<lambda>(i, c). comment_post c = pk r)
                             (all_rows (Comment_table w))))]
            else []))
   \<and> (a \<longrightarrow> qs_order_by (create_queryset m f a t) = [''-pub_date'']
          \<and> sorted_wrt (\<lambda>x y. pub_date (obj y) \<le> pub_date (obj x))
                (fetch w (create_queryset m f a t)))
   \<and> (\<not> a \<longrightarrow> qs_order_by (create_queryset m f a t) = []
          \<and> map (\<lambda>r. (pk r, obj r)) (fetch w (create_queryset m f a t)) =
                filter (\<lambda>(k, p). f \<longrightarrow> published_at w t p) (manager_rows w m))"
proof -
  have "a \<longrightarrow> sorted_wrt (\<lambda>x y. pub_date (obj y) \<le> pub_date (obj x))
                (fetch w (create_queryset m f a t))"
    by (simp add: fetch_create_queryset ordered_desc)
  moreover have "\<not> a \<longrightarrow> map (\<lambda>r. (pk r, obj r)) (fetch w (create_queryset m f a t)) =
                filter (\<lambda>(k, p). f \<longrightarrow> published_at w t p) (manager_rows w m)"
    using fetch_create_queryset_unordered [of w m f t] by simp
  ultimately show ?thesis
    using fetch_create_queryset_mset [of w m f a t]
      fetch_create_queryset_annotations [of _ w m f a t]
    by (simp add: create_queryset_clauses(4))
qed

theorem create_queryset_flags_witness:
  "map pk (fetch blog0 (create_queryset Post_objects True True 50)) = [1, 0]
   \<and> map annotation_values (fetch blog0 (create_queryset Post_objects True True 50))
       = [[(''comment_count'', 1)], [(''comment_count'', 1)]]
   \<and> sorted_wrt (\<lambda>x y. pub_date (obj y) \<le> pub_date (obj x))
        (fetch blog0 (create_queryset Post_objects True True 50))
   \<and> map pk (fetch blog0 (create_queryset Post_objects False False 50)) = [0, 1, 2]"
  using create_queryset_flags [of blog0 Post_objects True True 50]
  by (simp add: blog0_def fetch_def create_queryset_clauses manager_rows_def all_rows_def
        fetch_row_def ordered_def count_related_def row_at_def)

section \<open>Visibility of posts\<close>

lemma manager_rows_row_at:
  "(k, p) \<in> set (manager_rows w m) \<Longrightarrow> row_at (Post_table w) k = Some p"
  by (auto simp: manager_rows_def set_all_rows split: manager.splits)

lemma fetched_row_published:
  assumes "r \<in> set (fetch w (create_queryset m True a t))"
  shows "row_at (Post_table w) (pk r) = Some (obj r) \<and> published_at w t (obj r)"
proof -
  from assms obtain kp
    where kp: "kp \<in> set (manager_rows w m)" "published_at w t (snd kp)"
      and r: "r = fetch_row w (create_queryset m True a t) kp"
    by (auto simp: fetch_create_queryset set_ordered)
  from kp(1) have "row_at (Post_table w) (fst kp) = Some (snd kp)"
    using manager_rows_row_at [of "fst kp" "snd kp" w m] by simp
  with kp(2) r show ?thesis by (simp add: fetch_row_def)
qed

lemma published_post_is_shown:
  assumes "row_at (Post_table w) k = Some p" and "published_at w t p" and "t \<le> now clk"
  shows "PostDetailView_get_object clk w request k = Inr (k, p)"
  using assms
  by (auto simp: PostDetailView_get_object_def get_object_pk published_at_def
           split: option.splits)

text \<open>
  C8. Every post in a filtered listing (\<open>create_queryset\<close> with \<open>filters\<close> true, built
  at a time \<open>t\<close> not later than the time of the detail request, on the same database)
  is returned by \<open>PostDetailView.get_object\<close> to any requester: the lookup does not
  raise Http404, and the detail page is rendered.
\<close>

theorem listed_post_is_viewable:
  assumes "r \<in> set (fetch w (create_queryset m True a t))" and "t \<le> now clk"
  shows "PostDetailView_get_object clk w request (pk r) = Inr (pk r, obj r)
         \<and> PostDetailView_get_object clk w request (pk r) \<noteq> Inl Http404
         \<and> result (PostDetailView_get clk w request (pk r)) =
             Inr (TemplateResponse ''blog/detail.html''
                    (PostDetailView_get_context_data w (pk r, obj r)))"
proof -
  have "PostDetailView_get_object clk w request (pk r) = Inr (pk r, obj r)"
    using fetched_row_published [OF assms(1)] assms(2) published_post_is_shown by blast
  then show ?thesis
    by (simp add: PostDetailView_get_def responds_def)
qed

theorem listed_post_is_viewable_witness:
  "\<lparr>pk = 1,
    obj = \<lparr>author = 1, pub_date = 20, is_published = True, category = Some 0,
            post_text = ''second''\<rparr>,
    annotation_values = [(''comment_count'', 1)]\<rparr>
     \<in> set (fetch blog0 (IndexListView_queryset clock0))
   \<and> started clock0 \<le> now clock0
   \<and> PostDetailView_get_object clock0 blog0 (plain_request (PostDetailView 1) GET AnonymousUser) 1
       = Inr (1, \<lparr>author = 1, pub_date = 20, is_published = True, category = Some 0,
                  post_text = ''second''\<rparr>)"
proof -
  have rows: "\<lparr>pk = 1,
    obj = \<lparr>author = 1, pub_date = 20, is_published = True, category = Some 0,
            post_text = ''second''\<rparr>,
    annotation_values = [(''comment_count'', 1)]\<rparr>
     \<in> set (fetch blog0 (create_queryset Post_objects True True 30))"
    by (simp add: blog0_def fetch_def create_queryset_clauses manager_rows_def all_rows_def
        fetch_row_def ordered_def count_related_def row_at_def)
  have time: "30 \<le> now clock0"
    by (simp add: clock0_def)
  show ?thesis
    using listed_post_is_viewable [OF rows time] rows
    by (simp add: IndexListView_queryset_def clock0_def)
qed

lemma profile_rows:
  assumes "ProfileListView_get_queryset clk w request name = Inr ((k, u), q)"
  shows "mset (map (\<lambda>r. (pk r, obj r)) (fetch w q)) =
           mset (filter
                   (\<lambda>(i, p). author p = k
                      \<and> (if is_user (user request) k then True
                          else published_at w (now clk) p))
                   (all_rows (Post_table w)))"
proof (cases "is_user (user request) k")
  case True
  with assms have "q = create_queryset (author_posts k) False True (now clk)"
    by (auto simp: ProfileListView_get_queryset_def split: sum.splits if_splits)
  then have "mset (map (\<lambda>r. (pk r, obj r)) (fetch w q)) =
      mset (filter (\<lambda>(i, p). False \<longrightarrow> published_at w (now clk) p)
              (manager_rows w (author_posts k)))"
    by (simp only: fetch_create_queryset_mset)
  with True show ?thesis
    by (simp add: manager_rows_def case_prod_unfold)
next
  case False
  with assms have "q = create_queryset (author_posts k) True True (now clk)"
    by (auto simp: ProfileListView_get_queryset_def split: sum.splits if_splits)
  then have "mset (map (\<lambda>r. (pk r, obj r)) (fetch w q)) =
      mset (filter (\<lambda>(i, p). True \<longrightarrow> published_at w (now clk) p)
              (manager_rows w (author_posts k)))"
    by (simp only: fetch_create_queryset_mset)
  with False show ?thesis
    by (simp add: manager_rows_def case_prod_unfold conj_commute)
qed

text \<open>
  C10. The author of a post gets it from \<open>PostDetailView.get_object\<close> whatever its
  \<open>is_published\<close>, category and \<open>pub_date\<close> are; and the profile page of the user with
  key \<open>k\<close> lists all posts of \<open>k\<close> when the requester is \<open>k\<close>, and only those of them
  that pass the three publication conditions at the time of the request otherwise.
\<close>

theorem author_bypasses_visibility:
  "(row_at (Post_table w) post_id = Some p \<and> is_user (user request) (author p) \<longrightarrow>
      PostDetailView_get_object clk w request post_id = Inr (post_id, p))
   \<and> (ProfileListView_get_queryset clk w request name = Inr ((k, u), q) \<longrightarrow>
        mset (map (\<lambda>r. (pk r, obj r)) (fetch w q)) =
          mset (filter
                  (\<lambda>(i, p). author p = k
                     \<and> (if is_user (user request) k then True
                         else published_at w (now clk) p))
                  (all_rows (Post_table w))))"
proof -
  have "row_at (Post_table w) post_id = Some p \<and> is_user (user request) (author p) \<longrightarrow>
      PostDetailView_get_object clk w request post_id = Inr (post_id, p)"
    by (simp add: PostDetailView_get_object_def get_object_pk)
  then show ?thesis
    using profile_rows by blast
qed

theorem author_bypasses_visibility_witness:
  "PostDetailView_get_object clock0 blog0 (plain_request (PostDetailView 2) GET anna) 2
     = Inr (2, \<lparr>author = 0, pub_date = 90, is_published = False, category = None,
                post_text = ''draft''\<rparr>)
   \<and> map pk (fetch blog0
         (snd (projr (ProfileListView_get_queryset clock0 blog0
                        (plain_request (ProfileListView ''anna'') GET anna) ''anna''))))
       = [2, 0]
   \<and> map pk (fetch blog0
         (snd (projr (ProfileListView_get_queryset clock0 blog0
                        (plain_request (ProfileListView ''anna'') GET boris) ''anna''))))
       = [0]"
  using author_bypasses_visibility [of blog0 2
      "\<lparr>author = 0, pub_date = 90, is_published = False, category = None,
        post_text = ''draft''\<rparr>"
      "plain_request (PostDetailView 2) GET anna" clock0]
  by (simp add: blog0_def fetch_def create_queryset_clauses manager_rows_def all_rows_def
        fetch_row_def ordered_def count_related_def row_at_def clock0_def anna_def boris_def
        plain_request_def ProfileListView_get_queryset_def get_object_or_404_def)

section \<open>Deleting a post\<close>

lemma PostDeleteView_delete_found:
  assumes "row_at (Post_table w) post_id = Some p"
  shows "PostDeleteView_delete w post_id =
           \<lparr>result = Inr (HttpResponseRedirect blog_index),
            after = w\<lparr>Comment_table :=
                        delete_where (\<lambda>c. comment_post c = post_id) (Comment_table w),
                      cache := [],
                      Post_table := delete_row (Post_table w) post_id\<rparr>,
            events = [Queryset Post_model, Queryset Comment_model, Write Comment_model,
                      CacheClear, Queryset Post_model, Write Post_model]\<rparr>"
  using assms
  by (simp add: PostDeleteView_delete_def DeletionMixin_delete_def get_object_pk logged_def
        responds_def)

text \<open>
  C9. \<open>PostDeleteView.delete\<close> on an existing post removes that post and every comment
  whose \<open>post\<close> it is; every other post and every comment of another post stays as it
  was, and so do the categories and the users.
\<close>

theorem post_deletion_frame:
  assumes "row_at (Post_table w) post_id = Some p"
  shows "row_at (Post_table (after (PostDeleteView_delete w post_id))) post_id = None
     \<and> (\<forall>k. k \<noteq> post_id \<longrightarrow>
           row_at (Post_table (after (PostDeleteView_delete w post_id))) k
             = row_at (Post_table w) k)
     \<and> (\<forall>i. row_at (Comment_table (after (PostDeleteView_delete w post_id))) i =
           (case row_at (Comment_table w) i of
              None \<Rightarrow> None
            | Some c \<Rightarrow> if comment_post c = post_id then None else Some c))
     \<and> Category_table (after (PostDeleteView_delete w post_id)) = Category_table w
     \<and> User_table (after (PostDeleteView_delete w post_id)) = User_table w"
  by (simp add: PostDeleteView_delete_found [OF assms] row_at_delete_row row_at_delete_where)

theorem post_deletion_frame_witness:
  "row_at (Post_table blog0) 0 \<noteq> None
   \<and> all_rows (Comment_table (after (PostDeleteView_delete blog0 0)))
       = [(1, \<lparr>comment_author = 0, comment_post = 1, comment_text = ''thanks''\<rparr>)]
   \<and> map fst (all_rows (Post_table (after (PostDeleteView_delete blog0 0)))) = [1, 2]
   \<and> row_at (Post_table (after (PostDeleteView_delete blog0 0))) 1
       = row_at (Post_table blog0) 1"
  using post_deletion_frame [of blog0 0
      "\<lparr>author = 0, pub_date = 10, is_published = True, category = Some 0,
        post_text = ''first''\<rparr>"]
  by (simp add: blog0_def row_at_def PostDeleteView_delete_def DeletionMixin_delete_def
        get_object_def get_object_or_404_def pk_is_def all_rows_def logged_def responds_def
        delete_where_def delete_row_def)

section \<open>Adding a comment\<close>

lemma add_comment_authenticated:
  assumes "user request = AuthUser uid u" and "row_at (Post_table w) post_id = Some p"
  shows "add_comment w request post_id =
     (case CommentEditForm request of
        Some commentary \<Rightarrow>
          \<lparr>result = Inr (HttpResponseRedirect (blog_post_detail post_id)),
           after = w\<lparr>Comment_table :=
                       insert_row (Comment_table w)
                         (commentary\<lparr>comment_author := uid, comment_post := post_id\<rparr>)\<rparr>,
           events = [LoginCheck, Queryset Post_model, Write Comment_model]\<rparr>
      | None \<Rightarrow>
          \<lparr>result = Inr (HttpResponseRedirect (blog_post_detail post_id)),
           after = w,
           events = [LoginCheck, Queryset Post_model]\<rparr>)"
  using assms
  by (simp add: add_comment_def get_object_or_404_pk responds_def split: option.splits)

text \<open>
  C6. For an authenticated requester and an existing post, \<open>add_comment\<close> always
  answers with a redirect to the post's detail page. With a valid form it appends
  exactly one comment, the form's instance with the requester as author and the post
  as its post, and changes nothing else; with an invalid form the state is unchanged.
  The state changes, and a comment is written, if and only if the form is valid.
\<close>

theorem add_comment_iff_valid:
  assumes "user request = AuthUser uid u" and "row_at (Post_table w) post_id = Some p"
  shows "result (add_comment w request post_id)
           = Inr (HttpResponseRedirect (blog_post_detail post_id))
     \<and> (\<forall>c. CommentEditForm request = Some c \<longrightarrow>
           all_rows (Comment_table (after (add_comment w request post_id)))
             = all_rows (Comment_table w)
               @ [(length (Comment_table w),
                   c\<lparr>comment_author := uid, comment_post := post_id\<rparr>)]
           \<and> after (add_comment w request post_id)
               = w\<lparr>Comment_table := Comment_table (after (add_comment w request post_id))\<rparr>)
     \<and> (CommentEditForm request = None \<longrightarrow> after (add_comment w request post_id) = w)
     \<and> ((after (add_comment w request post_id) \<noteq> w) = (CommentEditForm request \<noteq> None))
     \<and> ((Write Comment_model \<in> set (events (add_comment w request post_id)))
          = (CommentEditForm request \<noteq> None))"
proof (cases "CommentEditForm request")
  case None
  then show ?thesis
    by (simp add: add_comment_authenticated [OF assms])
next
  case (Some c)
  have "length (Comment_table (w\<lparr>Comment_table := insert_row (Comment_table w) x\<rparr>))
          \<noteq> length (Comment_table w)" for x
    by (simp add: insert_row_def)
  then have "w\<lparr>Comment_table := insert_row (Comment_table w) x\<rparr> \<noteq> w" for x
    by metis
  with Some show ?thesis
    by (simp add: add_comment_authenticated [OF assms] all_rows_insert_row)
qed

theorem add_comment_iff_valid_witness:
  "all_rows (Comment_table (after (add_comment blog0
       ((plain_request (add_comment_view 1) POST boris)
          \<lparr>CommentEditForm :=
             Some \<lparr>comment_author = 7, comment_post = 7, comment_text = ''nice''\<rparr>\<rparr>) 1)))
     = [(0, \<lparr>comment_author = 1, comment_post = 0, comment_text = ''hello''\<rparr>),
        (1, \<lparr>comment_author = 0, comment_post = 1, comment_text = ''thanks''\<rparr>),
        (2, \<lparr>comment_author = 1, comment_post = 1, comment_text = ''nice''\<rparr>)]
   \<and> after (add_comment blog0 (plain_request (add_comment_view 1) POST boris) 1) = blog0"
  using add_comment_iff_valid [of
      "(plain_request (add_comment_view 1) POST boris)
          \<lparr>CommentEditForm :=
             Some \<lparr>comment_author = 7, comment_post = 7, comment_text = ''nice''\<rparr>\<rparr>"
      1 "\<lparr>username = ''boris''\<rparr>" blog0 1
      "\<lparr>author = 1, pub_date = 20, is_published = True, category = Some 0,
        post_text = ''second''\<rparr>"]
    add_comment_iff_valid [of "plain_request (add_comment_view 1) POST boris"
      1 "\<lparr>username = ''boris''\<rparr>" blog0 1
      "\<lparr>author = 1, pub_date = 20, is_published = True, category = Some 0,
        post_text = ''second''\<rparr>"]
  by (simp add: blog0_def boris_def plain_request_def row_at_def all_rows_def)

section \<open>Events of a request\<close>

lemmas outcome_defs = responds_def raises_def logged_def

lemma is_user_authenticated: "is_user u k \<Longrightarrow> is_authenticated u"
  by (cases u) simp_all

lemma writes_guarded_split:
  "writes_guarded es \<Longrightarrow> es = pre @ Write m # post \<Longrightarrow> \<exists>c \<in> set pre. is_check c"
proof (induction es arbitrary: pre)
  case Nil
  then show ?case by simp
next
  case (Cons e es)
  show ?case
  proof (cases pre)
    case Nil
    with Cons.prems show ?thesis by simp
  next
    case (Cons x pre')
    with Cons.prems have e: "e = x" and es: "es = pre' @ Write m # post"
      by simp_all
    show ?thesis
    proof (cases "is_check e")
      case True
      with e Cons show ?thesis by simp
    next
      case False
      with Cons.prems(1) have "writes_guarded es"
        by (simp split: if_splits)
      from Cons.IH [OF this es] Cons show ?thesis by auto
    qed
  qed
qed

section \<open>What every request does\<close>

subsection \<open>Evaluation does not look at the cache\<close>

lemma holds_ignores_cache: "holds (w\<lparr>cache := x\<rparr>) = holds w"
proof (intro ext)
  fix p l
  show "holds (w\<lparr>cache := x\<rparr>) p l = holds w p l"
    by (cases l) (simp_all split: option.splits)
qed

lemma count_related_ignores_cache:
  "count_related (w\<lparr>cache := x\<rparr>) counted k = count_related w counted k"
  by (simp add: count_related_def)

lemma fetch_row_ignores_cache: "fetch_row (w\<lparr>cache := x\<rparr>) q = fetch_row w q"
  by (simp add: fun_eq_iff fetch_row_def count_related_ignores_cache)

lemma ListView_render_events:
  "events (ListView_render t ctx n p object_list w es) = es
   \<and> after (ListView_render t ctx n p object_list w es) = w"
  by (simp add: ListView_render_def outcome_defs split: sum.splits)

lemma manager_rows_ignores_cache: "manager_rows (w\<lparr>cache := x\<rparr>) m = manager_rows w m"
  by (simp add: manager_rows_def split: manager.splits)

lemma fetch_ignores_cache: "fetch (w\<lparr>cache := x\<rparr>) q = fetch w q"
  by (simp add: fetch_def holds_ignores_cache fetch_row_ignores_cache
        manager_rows_ignores_cache)

subsection \<open>Each view\<close>

text \<open>
  For each view: it performs no cache operation and leaves the cache as it was; its
  first write, if any, comes after a check; and with another content of the cache it
  gives the same result, the same events and the same tables.
\<close>

lemma read_only_summary:
  assumes "CacheClear \<notin> set (events on_get) \<and> cache (after on_get) = cache w"
    and "writes_guarded (events on_get)" and "same_but_cache on_get' on_get"
  shows "(CacheClear \<notin> set (events (read_only m w on_get))
          \<and> cache (after (read_only m w on_get)) = cache w)
       \<and> writes_guarded (events (read_only m w on_get))
       \<and> same_but_cache (read_only m (w\<lparr>cache := x\<rparr>) on_get') (read_only m w on_get)"
  using assms by (cases m) (simp_all add: read_only_def outcome_defs same_but_cache_def)

lemma IndexListView_get_summary:
  "(CacheClear \<notin> set (events (IndexListView_get clk w r))
          \<and> cache (after (IndexListView_get clk w r)) = cache w)
       \<and> writes_guarded (events (IndexListView_get clk w r))
       \<and> same_but_cache (IndexListView_get clk (w\<lparr>cache := x\<rparr>) r) (IndexListView_get clk w r)"
  by (simp add: IndexListView_get_def ListView_render_def
        outcome_defs same_but_cache_def fetch_ignores_cache
      split: sum.splits)

lemma CategoryListView_get_summary:
  "(CacheClear \<notin> set (events (CategoryListView_get clk w r s))
          \<and> cache (after (CategoryListView_get clk w r s)) = cache w)
       \<and> writes_guarded (events (CategoryListView_get clk w r s))
       \<and> same_but_cache (CategoryListView_get clk (w\<lparr>cache := x\<rparr>) r s) (CategoryListView_get clk w r s)"
  by (simp add: CategoryListView_get_def CategoryListView_get_queryset_def ListView_render_def
        outcome_defs same_but_cache_def fetch_ignores_cache
      split: sum.splits prod.splits)

lemma ProfileListView_get_summary:
  "(CacheClear \<notin> set (events (ProfileListView_get clk w r s))
          \<and> cache (after (ProfileListView_get clk w r s)) = cache w)
       \<and> writes_guarded (events (ProfileListView_get clk w r s))
       \<and> same_but_cache (ProfileListView_get clk (w\<lparr>cache := x\<rparr>) r s) (ProfileListView_get clk w r s)"
  by (simp add: ProfileListView_get_def ProfileListView_get_queryset_def ListView_render_def
        outcome_defs same_but_cache_def fetch_ignores_cache
      split: sum.splits prod.splits)

lemma PostDetailView_get_summary:
  "(CacheClear \<notin> set (events (PostDetailView_get clk w r k))
          \<and> cache (after (PostDetailView_get clk w r k)) = cache w)
       \<and> writes_guarded (events (PostDetailView_get clk w r k))
       \<and> same_but_cache (PostDetailView_get clk (w\<lparr>cache := x\<rparr>) r k) (PostDetailView_get clk w r k)"
  by (simp add: PostDetailView_get_def PostDetailView_get_object_def PostDetailView_get_context_data_def
        outcome_defs same_but_cache_def fetch_ignores_cache
      split: sum.splits prod.splits option.splits)

lemma add_comment_summary:
  "(CacheClear \<notin> set (events (add_comment w r k))
          \<and> cache (after (add_comment w r k)) = cache w)
       \<and> writes_guarded (events (add_comment w r k))
       \<and> same_but_cache (add_comment (w\<lparr>cache := x\<rparr>) r k) (add_comment w r k)"
  by (simp add: add_comment_def
        outcome_defs same_but_cache_def fetch_ignores_cache
      split: sum.splits prod.splits requester.splits option.splits)

lemma PostCreateView_dispatch_summary:
  "(CacheClear \<notin> set (events (PostCreateView_dispatch w r))
          \<and> cache (after (PostCreateView_dispatch w r)) = cache w)
       \<and> writes_guarded (events (PostCreateView_dispatch w r))
       \<and> same_but_cache (PostCreateView_dispatch (w\<lparr>cache := x\<rparr>) r) (PostCreateView_dispatch w r)"
  by (cases "request_method r";
      simp add: PostCreateView_dispatch_def LoginRequiredMixin_dispatch_def PostCreateView_form_valid_def
        outcome_defs same_but_cache_def fetch_ignores_cache
      split: option.splits requester.splits)

lemma ProfileUpdateView_dispatch_summary:
  "(CacheClear \<notin> set (events (ProfileUpdateView_dispatch w r))
          \<and> cache (after (ProfileUpdateView_dispatch w r)) = cache w)
       \<and> writes_guarded (events (ProfileUpdateView_dispatch w r))
       \<and> same_but_cache (ProfileUpdateView_dispatch (w\<lparr>cache := x\<rparr>) r) (ProfileUpdateView_dispatch w r)"
  by (cases "request_method r";
      simp add: ProfileUpdateView_dispatch_def LoginRequiredMixin_dispatch_def
        outcome_defs same_but_cache_def fetch_ignores_cache
      split: option.splits requester.splits)

lemma PostUpdateView_dispatch_summary:
  "(CacheClear \<notin> set (events (PostUpdateView_dispatch w r k))
          \<and> cache (after (PostUpdateView_dispatch w r k)) = cache w)
       \<and> writes_guarded (events (PostUpdateView_dispatch w r k))
       \<and> same_but_cache (PostUpdateView_dispatch (w\<lparr>cache := x\<rparr>) r k) (PostUpdateView_dispatch w r k)"
  by (cases "request_method r";
      simp add: PostUpdateView_dispatch_def CommonPostMixin_dispatch_def LoginRequiredMixin_dispatch_def PostUpdateView_handler_def get_object_pk get_object_or_404_pk
        outcome_defs same_but_cache_def fetch_ignores_cache
      split: option.splits sum.splits)

lemma CommentUpdateView_dispatch_summary:
  "(CacheClear \<notin> set (events (CommentUpdateView_dispatch w r k c))
          \<and> cache (after (CommentUpdateView_dispatch w r k c)) = cache w)
       \<and> writes_guarded (events (CommentUpdateView_dispatch w r k c))
       \<and> same_but_cache (CommentUpdateView_dispatch (w\<lparr>cache := x\<rparr>) r k c) (CommentUpdateView_dispatch w r k c)"
  by (cases "request_method r";
      simp add: CommentUpdateView_dispatch_def CommentMixin_dispatch_def LoginRequiredMixin_dispatch_def CommentUpdateView_handler_def get_object_pk get_object_or_404_pk
        outcome_defs same_but_cache_def fetch_ignores_cache
      split: option.splits sum.splits)

lemma CommentDeleteView_dispatch_summary:
  "(CacheClear \<notin> set (events (CommentDeleteView_dispatch w r k c))
          \<and> cache (after (CommentDeleteView_dispatch w r k c)) = cache w)
       \<and> writes_guarded (events (CommentDeleteView_dispatch w r k c))
       \<and> same_but_cache (CommentDeleteView_dispatch (w\<lparr>cache := x\<rparr>) r k c) (CommentDeleteView_dispatch w r k c)"
  by (cases "request_method r";
      simp add: CommentDeleteView_dispatch_def LoginRequiredMixin_dispatch_def CommentDeleteView_handler_def CommentDeleteView_delete_def get_object_pk get_object_or_404_pk
        outcome_defs same_but_cache_def fetch_ignores_cache
      split: option.splits sum.splits)

lemma ProfileCreateView_dispatch_summary:
  "(CacheClear \<notin> set (events (ProfileCreateView_dispatch w r))
          \<and> cache (after (ProfileCreateView_dispatch w r)) = cache w)
       \<and> same_but_cache (ProfileCreateView_dispatch (w\<lparr>cache := x\<rparr>) r)
            (ProfileCreateView_dispatch w r)"
  by (cases "request_method r";
      simp add: ProfileCreateView_dispatch_def outcome_defs same_but_cache_def
      split: option.splits)

lemma PostDeleteView_dispatch_summary:
  "(CacheClear \<in> set (events (PostDeleteView_dispatch w r k)) \<longrightarrow>
       (request_method r = POST \<or> request_method r = DELETE)
       \<and> cache (after (PostDeleteView_dispatch w r k)) = [])
   \<and> (CacheClear \<notin> set (events (PostDeleteView_dispatch w r k)) \<longrightarrow>
       cache (after (PostDeleteView_dispatch w r k)) = cache w)
   \<and> writes_guarded (events (PostDeleteView_dispatch w r k))
   \<and> same_but_cache (PostDeleteView_dispatch (w\<lparr>cache := x\<rparr>) r k)
        (PostDeleteView_dispatch w r k)"
  by (cases "request_method r";
      simp add: PostDeleteView_dispatch_def LoginRequiredMixin_dispatch_def
        PostDeleteView_handler_def PostDeleteView_delete_def DeletionMixin_delete_def
        get_object_pk outcome_defs same_but_cache_def
      split: option.splits sum.splits)

subsection \<open>The whole layer\<close>

lemma handle_summary:
  "((\<forall>post_id. view r \<noteq> PostDeleteView post_id) \<longrightarrow>
      CacheClear \<notin> set (events (handle clk w r))
      \<and> cache (after (handle clk w r)) = cache w)
   \<and> (view r \<noteq> ProfileCreateView \<longrightarrow> writes_guarded (events (handle clk w r)))
   \<and> same_but_cache (handle clk (w\<lparr>cache := x\<rparr>) r) (handle clk w r)"
proof (cases "view r")
  case IndexListView
  then show ?thesis
    using read_only_summary [OF _ _ _, of "IndexListView_get clk w r" w
        "IndexListView_get clk (w\<lparr>cache := x\<rparr>) r" "request_method r" x]
      IndexListView_get_summary [of clk w r x]
    by (simp add: handle_def)
next
  case (CategoryListView s)
  then show ?thesis
    using read_only_summary [OF _ _ _, of "CategoryListView_get clk w r s" w
        "CategoryListView_get clk (w\<lparr>cache := x\<rparr>) r s" "request_method r" x]
      CategoryListView_get_summary [of clk w r s x]
    by (simp add: handle_def)
next
  case (ProfileListView s)
  then show ?thesis
    using read_only_summary [OF _ _ _, of "ProfileListView_get clk w r s" w
        "ProfileListView_get clk (w\<lparr>cache := x\<rparr>) r s" "request_method r" x]
      ProfileListView_get_summary [of clk w r s x]
    by (simp add: handle_def)
next
  case (add_comment_view k)
  then show ?thesis
    using add_comment_summary [of w r k x] by (simp add: handle_def)
next
  case PostCreateView
  then show ?thesis
    using PostCreateView_dispatch_summary [of w r x] by (simp add: handle_def)
next
  case (PostDetailView k)
  then show ?thesis
    using read_only_summary [OF _ _ _, of "PostDetailView_get clk w r k" w
        "PostDetailView_get clk (w\<lparr>cache := x\<rparr>) r k" "request_method r" x]
      PostDetailView_get_summary [of clk w r k x]
    by (simp add: handle_def)
next
  case ProfileUpdateView
  then show ?thesis
    using ProfileUpdateView_dispatch_summary [of w r x] by (simp add: handle_def)
next
  case (PostUpdateView k)
  then show ?thesis
    using PostUpdateView_dispatch_summary [of w r k x] by (simp add: handle_def)
next
  case (PostDeleteView k)
  then show ?thesis
    using PostDeleteView_dispatch_summary [of w r k x] by (simp add: handle_def)
next
  case (CommentUpdateView k c)
  then show ?thesis
    using CommentUpdateView_dispatch_summary [of w r k c x] by (simp add: handle_def)
next
  case (CommentDeleteView k c)
  then show ?thesis
    using CommentDeleteView_dispatch_summary [of w r k c x] by (simp add: handle_def)
next
  case ProfileCreateView
  then show ?thesis
    using ProfileCreateView_dispatch_summary [of w r x] by (simp add: handle_def)
qed

lemma authorised_post_deletion:
  assumes "row_at (Post_table w) k = Some p" and "is_user (user r) (author p)"
    and "request_method r = POST \<or> request_method r = DELETE"
  shows "PostDeleteView_dispatch w r k =
           logged [Queryset Post_model, AuthorCheck, LoginCheck] (PostDeleteView_delete w k)"
  using assms is_user_authenticated [OF assms(2)]
  by (auto simp: PostDeleteView_dispatch_def LoginRequiredMixin_dispatch_def
        PostDeleteView_handler_def get_object_pk outcome_defs)

text \<open>
  C3. \<open>cache.clear()\<close> happens only in a request to \<open>PostDeleteView\<close> with method POST or
  DELETE, and it empties the cache; every other request (listing, detail, create,
  update, comment, comment deletion, profile, registration) leaves the cache as it
  was and performs no cache operation. A POST or DELETE to \<open>PostDeleteView\<close> by the
  author of an existing post clears the cache and deletes the post. No request reads
  the cache: whatever the cache holds, a request has the same result, the same events
  and leaves the same tables.
\<close>

theorem cache_cleared_only_by_post_deletion:
  "(CacheClear \<in> set (events (handle clk w r)) \<longrightarrow>
       (\<exists>post_id. view r = PostDeleteView post_id)
       \<and> (request_method r = POST \<or> request_method r = DELETE)
       \<and> cache (after (handle clk w r)) = [])
   \<and> (CacheClear \<notin> set (events (handle clk w r)) \<longrightarrow>
       cache (after (handle clk w r)) = cache w)
   \<and> (\<forall>post_id p.
         view r = PostDeleteView post_id
         \<and> (request_method r = POST \<or> request_method r = DELETE)
         \<and> row_at (Post_table w) post_id = Some p \<and> is_user (user r) (author p) \<longrightarrow>
         CacheClear \<in> set (events (handle clk w r))
         \<and> cache (after (handle clk w r)) = []
         \<and> row_at (Post_table (after (handle clk w r))) post_id = None)
   \<and> (\<forall>x. result (handle clk (w\<lparr>cache := x\<rparr>) r) = result (handle clk w r)
          \<and> events (handle clk (w\<lparr>cache := x\<rparr>) r) = events (handle clk w r)
          \<and> Post_table (after (handle clk (w\<lparr>cache := x\<rparr>) r))
              = Post_table (after (handle clk w r))
          \<and> Comment_table (after (handle clk (w\<lparr>cache := x\<rparr>) r))
              = Comment_table (after (handle clk w r))
          \<and> Category_table (after (handle clk (w\<lparr>cache := x\<rparr>) r))
              = Category_table (after (handle clk w r))
          \<and> User_table (after (handle clk (w\<lparr>cache := x\<rparr>) r))
              = User_table (after (handle clk w r)))"
proof -
  have quiet: "CacheClear \<notin> set (events (handle clk w r))
               \<and> cache (after (handle clk w r)) = cache w"
    if "\<And>post_id. view r \<noteq> PostDeleteView post_id"
    using that handle_summary [of r clk w] by simp
  have deletion: "CacheClear \<in> set (events (handle clk w r))
         \<and> cache (after (handle clk w r)) = []
         \<and> row_at (Post_table (after (handle clk w r))) post_id = None"
    if "view r = PostDeleteView post_id"
      and "request_method r = POST \<or> request_method r = DELETE"
      and "row_at (Post_table w) post_id = Some p" and "is_user (user r) (author p)"
    for post_id p
    using that authorised_post_deletion [OF that(3,4,2)]
    by (simp add: handle_def PostDeleteView_delete_found logged_def row_at_delete_row)
  have unread: "result (handle clk (w\<lparr>cache := x\<rparr>) r) = result (handle clk w r)
          \<and> events (handle clk (w\<lparr>cache := x\<rparr>) r) = events (handle clk w r)
          \<and> Post_table (after (handle clk (w\<lparr>cache := x\<rparr>) r))
              = Post_table (after (handle clk w r))
          \<and> Comment_table (after (handle clk (w\<lparr>cache := x\<rparr>) r))
              = Comment_table (after (handle clk w r))
          \<and> Category_table (after (handle clk (w\<lparr>cache := x\<rparr>) r))
              = Category_table (after (handle clk w r))
          \<and> User_table (after (handle clk (w\<lparr>cache := x\<rparr>) r))
              = User_table (after (handle clk w r))" for x
    using handle_summary [of r clk w x] by (simp add: same_but_cache_def)
  have cleared: "(CacheClear \<in> set (events (handle clk w r)) \<longrightarrow>
       (\<exists>post_id. view r = PostDeleteView post_id)
       \<and> (request_method r = POST \<or> request_method r = DELETE)
       \<and> cache (after (handle clk w r)) = [])
   \<and> (CacheClear \<notin> set (events (handle clk w r)) \<longrightarrow>
       cache (after (handle clk w r)) = cache w)"
  proof (cases "\<exists>post_id. view r = PostDeleteView post_id")
    case True
    then obtain k where k: "view r = PostDeleteView k" ..
    then have h: "handle clk w r = PostDeleteView_dispatch w r k"
      by (simp add: handle_def)
    from PostDeleteView_dispatch_summary [of w r k] k show ?thesis
      unfolding h by blast
  next
    case False
    with quiet show ?thesis by auto
  qed
  from cleared deletion unread show ?thesis by blast
qed

text \<open>
  C3, at the small blog: anna deletes her post 0 and the cache is emptied; boris
  deletes his comment 0 and the cache is untouched.
\<close>

theorem cache_cleared_only_by_post_deletion_witness:
  "CacheClear \<in> set (events (handle clock0 blog0 (plain_request (PostDeleteView 0) POST anna)))
   \<and> cache (after (handle clock0 blog0 (plain_request (PostDeleteView 0) POST anna))) = []
   \<and> cache blog0 = [(''page'', ''cached'')]
   \<and> CacheClear
       \<notin> set (events (handle clock0 blog0 (plain_request (CommentDeleteView 0 0) POST boris)))
   \<and> cache (after (handle clock0 blog0 (plain_request (CommentDeleteView 0 0) POST boris)))
       = cache blog0
   \<and> row_at (Comment_table
        (after (handle clock0 blog0 (plain_request (CommentDeleteView 0 0) POST boris)))) 0
       = None"
proof -
  have del: "handle clock0 blog0 (plain_request (CommentDeleteView 0 0) POST boris) =
      \<lparr>result = Inr (HttpResponseRedirect (blog_post_detail 0)),
       after = blog0\<lparr>Comment_table := delete_row (Comment_table blog0) 0\<rparr>,
       events = [Queryset Comment_model, AuthorCheck, LoginCheck, Queryset Comment_model,
                 Write Comment_model]\<rparr>"
    by (simp add: handle_def plain_request_def boris_def CommentDeleteView_dispatch_def
          LoginRequiredMixin_dispatch_def CommentDeleteView_handler_def
          CommentDeleteView_delete_def get_object_pk get_object_or_404_pk outcome_defs
          blog0_def row_at_def)
  have row: "row_at (Post_table blog0) 0
               = Some \<lparr>author = 0, pub_date = 10, is_published = True, category = Some 0,
                       post_text = ''first''\<rparr>"
    by (simp add: blog0_def row_at_def)
  have "CacheClear
          \<in> set (events (handle clock0 blog0 (plain_request (PostDeleteView 0) POST anna)))
        \<and> cache (after (handle clock0 blog0 (plain_request (PostDeleteView 0) POST anna)))
            = []"
    using cache_cleared_only_by_post_deletion
            [of clock0 blog0 "plain_request (PostDeleteView 0) POST anna"] row
    by (simp add: plain_request_def anna_def)
  moreover have "cache blog0 = [(''page'', ''cached'')]"
    by (simp add: blog0_def)
  ultimately show ?thesis
    by (simp add: del row_at_delete_row)
qed

subsection \<open>Authorization and database accesses\<close>

text \<open>
  C4, as stated, fails: the index listing requested by the anonymous user performs one
  queryset and no authorization check at all, and the author's deletion of a post
  performs two checks, four querysets and two writes.
\<close>

theorem index_listing_has_no_check:
  "events (handle clock0 blog0 (plain_request IndexListView GET AnonymousUser))
     = [Queryset Post_model]
   \<and> \<not> check_then_one_access
         (events (handle clock0 blog0 (plain_request IndexListView GET AnonymousUser)))
   \<and> events (handle clock0 blog0 (plain_request (PostDeleteView 0) POST anna))
       = [Queryset Post_model, AuthorCheck, LoginCheck, Queryset Post_model,
          Queryset Comment_model, Write Comment_model, CacheClear, Queryset Post_model,
          Write Post_model]
   \<and> \<not> check_then_one_access
         (events (handle clock0 blog0 (plain_request (PostDeleteView 0) POST anna)))"
  by (simp add: handle_def read_only_def IndexListView_get_def ListView_render_events
        plain_request_def anna_def
        PostDeleteView_dispatch_def LoginRequiredMixin_dispatch_def PostDeleteView_handler_def
        PostDeleteView_delete_def DeletionMixin_delete_def get_object_pk outcome_defs
        blog0_def row_at_def)

text \<open>
  C4, amended. In every request to a view other than the registration view
  (\<open>ProfileCreateView\<close>), each database write comes after an authorization check, the
  login check or the comparison of the object's author with the requester. (Listings,
  the detail page and registration run without a preceding check, and a request may
  perform several database accesses.)
\<close>

theorem writes_follow_a_check:
  assumes "view r \<noteq> ProfileCreateView"
    and "events (handle clk w r) = pre @ Write m # post"
  shows "\<exists>c \<in> set pre. is_check c"
proof -
  have "writes_guarded (events (handle clk w r))"
    using assms(1) handle_summary [of r clk w] by simp
  then show ?thesis
    using assms(2) by (rule writes_guarded_split)
qed

text \<open>
  C4, amended, at the small blog: the first write of anna's deletion of post 0 comes
  after the author check and the login check.
\<close>

theorem writes_follow_a_check_witness:
  "events (handle clock0 blog0 (plain_request (PostDeleteView 0) POST anna))
     = [Queryset Post_model, AuthorCheck, LoginCheck, Queryset Post_model,
        Queryset Comment_model] @ Write Comment_model # [CacheClear, Queryset Post_model,
        Write Post_model]
   \<and> (\<exists>c \<in> set [Queryset Post_model, AuthorCheck, LoginCheck, Queryset Post_model,
                  Queryset Comment_model]. is_check c)"
proof -
  have ev: "events (handle clock0 blog0 (plain_request (PostDeleteView 0) POST anna))
     = [Queryset Post_model, AuthorCheck, LoginCheck, Queryset Post_model,
        Queryset Comment_model] @ Write Comment_model # [CacheClear, Queryset Post_model,
        Write Post_model]"
    by (simp add: handle_def plain_request_def anna_def
        PostDeleteView_dispatch_def LoginRequiredMixin_dispatch_def PostDeleteView_handler_def
        PostDeleteView_delete_def DeletionMixin_delete_def get_object_pk outcome_defs
        blog0_def row_at_def)
  have v: "view (plain_request (PostDeleteView 0) POST anna) \<noteq> ProfileCreateView"
    by (simp add: plain_request_def)
  from writes_follow_a_check [OF v ev] ev show ?thesis by simp
qed

text \<open>
  C7, as stated, fails: the detail page of post 0 builds more than one queryset (the
  post, then its comments), and so does the author's deletion of post 0.
\<close>

theorem detail_page_builds_two_querysets:
  "1 < querysets_built (handle clock0 blog0 (plain_request (PostDetailView 0) GET AnonymousUser))
   \<and> 1 < querysets_built (handle clock0 blog0 (plain_request (PostDeleteView 0) POST anna))"
  by (simp add: handle_def read_only_def PostDetailView_get_def PostDetailView_get_object_def
        plain_request_def anna_def clock0_def querysets_built_def
        PostDeleteView_dispatch_def LoginRequiredMixin_dispatch_def PostDeleteView_handler_def
        PostDeleteView_delete_def DeletionMixin_delete_def get_object_pk outcome_defs
        blog0_def row_at_def)

lemma rendered_detail_page:
  assumes "result (PostDetailView_get clk w r k) = Inr (TemplateResponse t c)"
  shows "events (PostDetailView_get clk w r k)
           = [Queryset Post_model, AuthorCheck, Queryset Comment_model]"
  using assms by (simp add: PostDetailView_get_def outcome_defs split: sum.splits)

lemma rendered_category_listing:
  assumes "result (CategoryListView_get clk w r s) = Inr (TemplateResponse t c)"
  shows "events (CategoryListView_get clk w r s) = [Queryset Category_model, Queryset Post_model]"
  using assms
  by (simp add: CategoryListView_get_def ListView_render_def outcome_defs
           split: sum.splits prod.splits if_splits)

lemma rendered_profile_listing:
  assumes "result (ProfileListView_get clk w r s) = Inr (TemplateResponse t c)"
  shows "events (ProfileListView_get clk w r s) = [Queryset User_model, Queryset Post_model]"
  using assms
  by (simp add: ProfileListView_get_def ListView_render_def outcome_defs
           split: sum.splits prod.splits if_splits)

lemma rendered_by_get:
  assumes "result (read_only m w on_get) = Inr (TemplateResponse t c)"
  shows "read_only m w on_get = on_get"
  using assms by (cases m) (simp_all add: read_only_def outcome_defs)

text \<open>
  C7, amended. A request does not always build exactly one queryset. Whenever
  \<open>PostDetailView\<close> renders its page, the request has built at least two querysets, the
  post looked up by \<open>get_object\<close> and the comments of \<open>get_context_data\<close>; whenever the
  category or the profile listing renders its page, at least two, the category or user
  looked up and the queryset of \<open>create_queryset\<close>; and a POST or DELETE to
  \<open>PostDeleteView\<close> by the author of an existing post builds at least four, three
  lookups of the post and \<open>post.comments.all()\<close>.
\<close>

theorem querysets_per_request:
  "(\<forall>post_id c.
       view r = PostDetailView post_id
       \<and> result (handle clk w r) = Inr (TemplateResponse ''blog/detail.html'' c) \<longrightarrow>
       2 \<le> querysets_built (handle clk w r))
   \<and> (\<forall>category_slug c.
       view r = CategoryListView category_slug
       \<and> result (handle clk w r) = Inr (TemplateResponse ''blog/category.html'' c) \<longrightarrow>
       2 \<le> querysets_built (handle clk w r))
   \<and> (\<forall>name c.
       view r = ProfileListView name
       \<and> result (handle clk w r) = Inr (TemplateResponse ''blog/profile.html'' c) \<longrightarrow>
       2 \<le> querysets_built (handle clk w r))
   \<and> (\<forall>post_id p.
       view r = PostDeleteView post_id
       \<and> (request_method r = POST \<or> request_method r = DELETE)
       \<and> row_at (Post_table w) post_id = Some p \<and> is_user (user r) (author p) \<longrightarrow>
       4 \<le> querysets_built (handle clk w r))"
proof -
  have detail: "filter is_queryset (events (handle clk w r))
                  = [Queryset Post_model, Queryset Comment_model]"
    if "view r = PostDetailView post_id"
      and "result (handle clk w r) = Inr (TemplateResponse ''blog/detail.html'' c)"
    for post_id c
  proof -
    from that have "handle clk w r = PostDetailView_get clk w r post_id"
      using rendered_by_get by (simp add: handle_def)
    with that(2) rendered_detail_page [of clk w r post_id] show ?thesis by simp
  qed
  have category: "filter is_queryset (events (handle clk w r))
                  = [Queryset Category_model, Queryset Post_model]"
    if "view r = CategoryListView category_slug"
      and "result (handle clk w r) = Inr (TemplateResponse ''blog/category.html'' c)"
    for category_slug c
  proof -
    from that have "handle clk w r = CategoryListView_get clk w r category_slug"
      using rendered_by_get by (simp add: handle_def)
    with that(2) rendered_category_listing [of clk w r category_slug] show ?thesis by simp
  qed
  have profile: "filter is_queryset (events (handle clk w r))
                  = [Queryset User_model, Queryset Post_model]"
    if "view r = ProfileListView name"
      and "result (handle clk w r) = Inr (TemplateResponse ''blog/profile.html'' c)"
    for name c
  proof -
    from that have "handle clk w r = ProfileListView_get clk w r name"
      using rendered_by_get by (simp add: handle_def)
    with that(2) rendered_profile_listing [of clk w r name] show ?thesis by simp
  qed
  have deletion: "filter is_queryset (events (handle clk w r))
         = [Queryset Post_model, Queryset Post_model, Queryset Comment_model,
            Queryset Post_model]"
    if "view r = PostDeleteView post_id"
      and "request_method r = POST \<or> request_method r = DELETE"
      and "row_at (Post_table w) post_id = Some p" and "is_user (user r) (author p)"
    for post_id p
    using that authorised_post_deletion [OF that(3,4,2)]
    by (simp add: handle_def PostDeleteView_delete_found logged_def)
  show ?thesis
    unfolding querysets_built_def
    using detail category profile deletion by (simp (no_asm_simp))
qed

theorem querysets_per_request_witness:
  "result (handle clock0 blog0 (plain_request (PostDetailView 0) GET AnonymousUser))
     = Inr (TemplateResponse ''blog/detail.html''
              (detail_context
                 (0, \<lparr>author = 0, pub_date = 10, is_published = True, category = Some 0,
                      post_text = ''first''\<rparr>)
                 [(0, \<lparr>comment_author = 1, comment_post = 0, comment_text = ''hello''\<rparr>)]))
   \<and> 2 \<le> querysets_built
            (handle clock0 blog0 (plain_request (PostDetailView 0) GET AnonymousUser))"
proof -
  have page: "result (handle clock0 blog0 (plain_request (PostDetailView 0) GET AnonymousUser))
     = Inr (TemplateResponse ''blog/detail.html''
              (detail_context
                 (0, \<lparr>author = 0, pub_date = 10, is_published = True, category = Some 0,
                      post_text = ''first''\<rparr>)
                 [(0, \<lparr>comment_author = 1, comment_post = 0, comment_text = ''hello''\<rparr>)]))"
    by (simp add: handle_def read_only_def PostDetailView_get_def PostDetailView_get_object_def
        PostDetailView_get_context_data_def plain_request_def clock0_def get_object_pk
        outcome_defs blog0_def row_at_def all_rows_def)
  have v: "view (plain_request (PostDetailView 0) GET AnonymousUser) = PostDetailView 0"
    by (simp add: plain_request_def)
  from querysets_per_request [of "plain_request (PostDetailView 0) GET AnonymousUser"
      clock0 blog0] v page
  show ?thesis by blast
qed

subsection \<open>Requests from someone who is not the author\<close>

lemma refused_outcome:
  assumes "target_author w (view r) = Some a" and "\<not> is_user (user r) a"
  shows "events (handle clk w r) = [Queryset (target_model (view r)), AuthorCheck]
     \<and> after (handle clk w r) = w
     \<and> (\<forall>post_id. view r = PostUpdateView post_id \<longrightarrow>
           result (handle clk w r) = Inr (HttpResponseRedirect (blog_post_detail post_id)))
     \<and> (\<forall>post_id comment_id c.
           view r = CommentUpdateView post_id comment_id
           \<and> row_at (Comment_table w) comment_id = Some c \<longrightarrow>
           result (handle clk w r)
             = Inr (HttpResponseRedirect (blog_post_detail (comment_post c))))
     \<and> (\<forall>post_id. view r = PostDeleteView post_id \<longrightarrow>
           result (handle clk w r) = Inr HttpResponseForbidden)
     \<and> (\<forall>post_id comment_id. view r = CommentDeleteView post_id comment_id \<longrightarrow>
           result (handle clk w r) = Inr HttpResponseForbidden)"
proof (cases "view r")
  case (PostUpdateView k)
  with assms show ?thesis
    by (auto simp: handle_def PostUpdateView_dispatch_def CommonPostMixin_dispatch_def
          get_object_or_404_pk outcome_defs)
next
  case (PostDeleteView k)
  with assms show ?thesis
    by (auto simp: handle_def PostDeleteView_dispatch_def get_object_pk outcome_defs)
next
  case (CommentUpdateView k c)
  with assms show ?thesis
    by (auto simp: handle_def CommentUpdateView_dispatch_def CommentMixin_dispatch_def
          get_object_or_404_pk outcome_defs)
next
  case (CommentDeleteView k c)
  with assms show ?thesis
    by (auto simp: handle_def CommentDeleteView_dispatch_def get_object_or_404_pk
          outcome_defs)
qed (use assms in simp_all)

text \<open>
  C1. For a request to \<open>PostUpdateView\<close>, \<open>PostDeleteView\<close>, \<open>CommentUpdateView\<close> or
  \<open>CommentDeleteView\<close> whose target object exists with author \<open>a\<close>: if the request
  changes the state, writes, or does anything after the dispatch check (its lookup and
  the author comparison), then the requester is \<open>a\<close>; and when the requester is not
  \<open>a\<close> the request is refused (HTTP 403 or a redirect to a post's detail page), writes
  nothing and leaves the state unchanged.
\<close>

theorem mutation_only_by_author:
  assumes "target_author w (view r) = Some a"
  shows "((after (handle clk w r) \<noteq> w
           \<or> (\<exists>m. Write m \<in> set (events (handle clk w r)))
           \<or> 2 < length (events (handle clk w r))) \<longrightarrow> is_user (user r) a)
     \<and> (\<not> is_user (user r) a \<longrightarrow>
           after (handle clk w r) = w
           \<and> (\<forall>m. Write m \<notin> set (events (handle clk w r)))
           \<and> (result (handle clk w r) = Inr HttpResponseForbidden
               \<or> (\<exists>k. result (handle clk w r)
                         = Inr (HttpResponseRedirect (blog_post_detail k)))))"
proof (cases "is_user (user r) a")
  case True
  then show ?thesis by simp
next
  case False
  note refused = refused_outcome [OF assms False, of clk]
  have "result (handle clk w r) = Inr HttpResponseForbidden
        \<or> (\<exists>k. result (handle clk w r) = Inr (HttpResponseRedirect (blog_post_detail k)))"
  proof (cases "view r")
    case (CommentUpdateView k c)
    with assms obtain x where "row_at (Comment_table w) c = Some x" by auto
    with refused CommentUpdateView show ?thesis by blast
  qed (use assms refused in simp_all)
  with refused False show ?thesis by simp
qed

text \<open>
  C5. The permission check runs at dispatch time: for a request to one of the four
  mutation views whose target exists and whose requester is not its author, the
  events are the lookup and the author comparison and nothing after them (no handler
  runs), the state is unchanged, and the response is a redirect to the detail page of
  the post (\<open>PostUpdateView\<close>), a redirect to the detail page of the comment's post
  (\<open>CommentUpdateView\<close>), or HTTP 403 (\<open>PostDeleteView\<close>, \<open>CommentDeleteView\<close>).
\<close>

theorem rejected_mutation_changes_nothing:
  assumes "target_author w (view r) = Some a" and "\<not> is_user (user r) a"
  shows "events (handle clk w r) = [Queryset (target_model (view r)), AuthorCheck]
     \<and> after (handle clk w r) = w
     \<and> (\<forall>post_id. view r = PostUpdateView post_id \<longrightarrow>
           result (handle clk w r) = Inr (HttpResponseRedirect (blog_post_detail post_id)))
     \<and> (\<forall>post_id comment_id c.
           view r = CommentUpdateView post_id comment_id
           \<and> row_at (Comment_table w) comment_id = Some c \<longrightarrow>
           result (handle clk w r)
             = Inr (HttpResponseRedirect (blog_post_detail (comment_post c))))
     \<and> (\<forall>post_id. view r = PostDeleteView post_id \<longrightarrow>
           result (handle clk w r) = Inr HttpResponseForbidden)
     \<and> (\<forall>post_id comment_id. view r = CommentDeleteView post_id comment_id \<longrightarrow>
           result (handle clk w r) = Inr HttpResponseForbidden)"
  using assms by (rule refused_outcome)

text \<open>
  C5, at the small blog: boris may not delete anna's post 0 (403), anna may not edit
  boris's comment 0 (redirect to post 0); nothing changes.
\<close>

theorem rejected_mutation_changes_nothing_witness:
  "events (handle clock0 blog0 (plain_request (PostDeleteView 0) POST boris))
     = [Queryset Post_model, AuthorCheck]
   \<and> after (handle clock0 blog0 (plain_request (PostDeleteView 0) POST boris)) = blog0
   \<and> result (handle clock0 blog0 (plain_request (PostDeleteView 0) POST boris))
       = Inr HttpResponseForbidden
   \<and> result (handle clock0 blog0 (plain_request (CommentUpdateView 0 0) POST anna))
       = Inr (HttpResponseRedirect (blog_post_detail 0))
   \<and> after (handle clock0 blog0 (plain_request (CommentUpdateView 0 0) POST anna)) = blog0"
proof -
  have post: "target_author blog0 (view (plain_request (PostDeleteView 0) POST boris)) = Some 0"
    and not_boris: "\<not> is_user (user (plain_request (PostDeleteView 0) POST boris)) 0"
    and comment:
      "target_author blog0 (view (plain_request (CommentUpdateView 0 0) POST anna)) = Some 1"
    and not_anna: "\<not> is_user (user (plain_request (CommentUpdateView 0 0) POST anna)) 1"
    and row: "row_at (Comment_table blog0) 0
                = Some \<lparr>comment_author = 1, comment_post = 0, comment_text = ''hello''\<rparr>"
    by (simp_all add: plain_request_def blog0_def row_at_def boris_def anna_def)
  show ?thesis
    using rejected_mutation_changes_nothing [OF post not_boris, of clock0]
      rejected_mutation_changes_nothing [OF comment not_anna, of clock0] row
    by (simp add: plain_request_def)
qed

text \<open>
  C1, at the small blog: anna's edit of her post 0 is saved, the same request from
  boris changes nothing.
\<close>

theorem mutation_only_by_author_witness:
  "row_at (Post_table (after (handle clock0 blog0
      ((plain_request (PostUpdateView 0) POST anna)
         \<lparr>PostEditForm :=
            Some \<lparr>author = 0, pub_date = 10, is_published = True, category = Some 0,
                   post_text = ''edited''\<rparr>\<rparr>)))) 0
     = Some \<lparr>author = 0, pub_date = 10, is_published = True, category = Some 0,
             post_text = ''edited''\<rparr>
   \<and> is_user anna 0
   \<and> after (handle clock0 blog0
       ((plain_request (PostUpdateView 0) POST boris)
         \<lparr>PostEditForm :=
            Some \<lparr>author = 0, pub_date = 10, is_published = True, category = Some 0,
                   post_text = ''edited''\<rparr>\<rparr>)) = blog0"
proof -
  let ?form = "Some \<lparr>author = 0, pub_date = 10, is_published = True, category = Some 0,
                   post_text = ''edited''\<rparr>"
  have target: "target_author blog0
      (view ((plain_request (PostUpdateView 0) POST u)\<lparr>PostEditForm := ?form\<rparr>)) = Some 0" for u
    by (simp add: plain_request_def blog0_def row_at_def)
  have edited: "after (handle clock0 blog0
       ((plain_request (PostUpdateView 0) POST anna)\<lparr>PostEditForm := ?form\<rparr>))
      = blog0\<lparr>Post_table := save_row (Post_table blog0) 0
           \<lparr>author = 0, pub_date = 10, is_published = True, category = Some 0,
             post_text = ''edited''\<rparr>\<rparr>"
    by (simp add: handle_def plain_request_def anna_def PostUpdateView_dispatch_def
          CommonPostMixin_dispatch_def LoginRequiredMixin_dispatch_def
          PostUpdateView_handler_def get_object_pk get_object_or_404_pk outcome_defs
          blog0_def row_at_def)
  have changed: "after (handle clock0 blog0
       ((plain_request (PostUpdateView 0) POST anna)\<lparr>PostEditForm := ?form\<rparr>)) \<noteq> blog0"
    unfolding edited by (simp add: blog0_def save_row_def)
  have "is_user (user ((plain_request (PostUpdateView 0) POST anna)\<lparr>PostEditForm := ?form\<rparr>)) 0"
    using mutation_only_by_author [OF target [of anna], of clock0] changed by blast
  then have author: "is_user anna 0"
    by (simp add: plain_request_def)
  have refused: "after (handle clock0 blog0
       ((plain_request (PostUpdateView 0) POST boris)\<lparr>PostEditForm := ?form\<rparr>)) = blog0"
    using mutation_only_by_author [OF target [of boris], of clock0]
    by (simp add: plain_request_def boris_def)
  have saved: "row_at (Post_table (after (handle clock0 blog0
      ((plain_request (PostUpdateView 0) POST anna)\<lparr>PostEditForm := ?form\<rparr>)))) 0 = ?form"
    unfolding edited by (simp add: blog0_def save_row_def row_at_def)
  from saved author refused show ?thesis
    by (intro conjI)
qed

end
